theory Spec2Isabelle
  imports Main
begin

section \<open>Civil time\<close>

text \<open>
  The timetables of \<^verbatim>\<open>custom_timetables.py\<close> compute with pendulum \<^verbatim>\<open>DateTime\<close> values.
  A \<^verbatim>\<open>DateTime\<close> is modelled by its civil fields, read in one fixed-offset zone (UTC in
  all scenarios of the specification): daylight-saving transitions are outside the model.
  The weekday numbering is the one the source states in its docstrings and comments
  (Monday = 0, ..., Sunday = 6).

  Python's dates run from 0001-01-01 to 9999-12-31. The model has the two limits where a
  loop of the source could run into them: the constructor \<open>datetime\<close> raises
  \<^verbatim>\<open>ValueError\<close> for a year outside 1..9999, and the steps \<open>add_day\<close>, \<open>subtract_day\<close> and
  \<open>shift_days\<close>, which the day loops and the last-day computations use, raise
  \<^verbatim>\<open>OverflowError\<close> when they leave that range, as pendulum's do. The remaining
  arithmetic (\<open>add_days\<close>, \<open>add_seconds\<close>, \<open>add_minutes\<close>, \<open>add_hours\<close>, used for the end
  of an interval, the target weekday and the grid of \<^verbatim>\<open>EveryNInterval\<close>) is the arithmetic of
  the unbounded proleptic calendar: a result of it outside the two limits stands for an
  \<^verbatim>\<open>OverflowError\<close> of the source.
\<close>

datatype error = ValueError | TypeError | IndexError | AttributeError | OverflowError

text \<open>
  What a call does: it returns a value, raises, or is still inside a \<^verbatim>\<open>while\<close> loop
  when the iteration budget given to the model is used up.
\<close>

datatype 'a outcome = Return 'a | Raise error | OutOfFuel

text \<open>Sequencing: the second step runs on the value the first one returns.\<close>

fun bind :: "'a outcome \<Rightarrow> ('a \<Rightarrow> 'b outcome) \<Rightarrow> 'b outcome" where
  "bind (Return x) f = f x"
| "bind (Raise e) f = Raise e"
| "bind OutOfFuel f = OutOfFuel"

record DateTime =
  year :: int
  month :: int
  day :: int
  hour :: int
  minute :: int
  second :: int
  microsecond :: int

definition is_leap :: "int \<Rightarrow> bool" where
  "is_leap y \<longleftrightarrow> y mod 4 = 0 \<and> (y mod 100 \<noteq> 0 \<or> y mod 400 = 0)"

definition days_in_month :: "int \<Rightarrow> int \<Rightarrow> int" where
  "days_in_month y m =
     (if m = 2 then (if is_leap y then 29 else 28)
      else if m = 4 \<or> m = 6 \<or> m = 9 \<or> m = 11 then 30 else 31)"

definition days_before_year :: "int \<Rightarrow> int" where
  "days_before_year y = 365 * (y - 1) + (y - 1) div 4 - (y - 1) div 100 + (y - 1) div 400"

definition days_before_month :: "int \<Rightarrow> int \<Rightarrow> int" where
  "days_before_month y m =
     [0, 31, 59, 90, 120, 151, 181, 212, 243, 273, 304, 334] ! nat (m - 1)
       + (if 2 < m \<and> is_leap y then 1 else 0)"

text \<open>The proleptic Gregorian day number of a date; day 1 is 0001-01-01, a Monday.\<close>

definition to_ordinal :: "int \<Rightarrow> int \<Rightarrow> int \<Rightarrow> int" where
  "to_ordinal y m d = days_before_year y + days_before_month y m + d"

definition valid_date :: "int \<Rightarrow> int \<Rightarrow> int \<Rightarrow> bool" where
  "valid_date y m d \<longleftrightarrow> 1 \<le> m \<and> m \<le> 12 \<and> 1 \<le> d \<and> d \<le> days_in_month y m"

definition valid_time :: "int \<Rightarrow> int \<Rightarrow> int \<Rightarrow> bool" where
  "valid_time h mi s \<longleftrightarrow> 0 \<le> h \<and> h < 24 \<and> 0 \<le> mi \<and> mi < 60 \<and> 0 \<le> s \<and> s < 60"

definition valid_datetime :: "DateTime \<Rightarrow> bool" where
  "valid_datetime t \<longleftrightarrow>
     valid_date (year t) (month t) (day t) \<and> valid_time (hour t) (minute t) (second t)
     \<and> 0 \<le> microsecond t \<and> microsecond t < 1000000"

definition ordinal :: "DateTime \<Rightarrow> int" where
  "ordinal t = to_ordinal (year t) (month t) (day t)"

text \<open>\<^verbatim>\<open>dt.day_of_week\<close>.\<close>

definition day_of_week :: "DateTime \<Rightarrow> int" where
  "day_of_week t = (ordinal t + 6) mod 7"

text \<open>
  The position of a \<^verbatim>\<open>DateTime\<close> on the time line, in microseconds. The comparisons
  \<^verbatim>\<open><\<close>, \<^verbatim>\<open><=\<close>, \<^verbatim>\<open>>\<close>, \<^verbatim>\<open>>=\<close> of the source compare instants.
\<close>

definition instant :: "DateTime \<Rightarrow> int" where
  "instant t =
     (((ordinal t * 24 + hour t) * 60 + minute t) * 60 + second t) * 1000000 + microsecond t"

definition dt_lt :: "DateTime \<Rightarrow> DateTime \<Rightarrow> bool" where
  "dt_lt a b \<longleftrightarrow> instant a < instant b"

definition dt_le :: "DateTime \<Rightarrow> DateTime \<Rightarrow> bool" where
  "dt_le a b \<longleftrightarrow> instant a \<le> instant b"

text \<open>Python's \<^verbatim>\<open>max(a, b)\<close>: the first argument unless the second is greater.\<close>

definition dt_max :: "DateTime \<Rightarrow> DateTime \<Rightarrow> DateTime" where
  "dt_max a b = (if dt_lt a b then b else a)"

text \<open>\<^verbatim>\<open>dt.add(days=1)\<close> and \<^verbatim>\<open>dt.subtract(days=1)\<close>: the time of day is kept.\<close>

definition next_day :: "DateTime \<Rightarrow> DateTime" where
  "next_day t =
     (if day t < days_in_month (year t) (month t) then t\<lparr>day := day t + 1\<rparr>
      else if month t < 12 then t\<lparr>month := month t + 1, day := 1\<rparr>
      else t\<lparr>year := year t + 1, month := 1, day := 1\<rparr>)"

definition prev_day :: "DateTime \<Rightarrow> DateTime" where
  "prev_day t =
     (if 1 < day t then t\<lparr>day := day t - 1\<rparr>
      else if 1 < month t
        then t\<lparr>month := month t - 1, day := days_in_month (year t) (month t - 1)\<rparr>
      else t\<lparr>year := year t - 1, month := 12, day := 31\<rparr>)"

text \<open>\<^verbatim>\<open>dt.add(days=k)\<close> for any integer \<^verbatim>\<open>k\<close>; \<^verbatim>\<open>dt.subtract(days=k)\<close> is \<open>add_days t (- k)\<close>.\<close>

definition add_days :: "DateTime \<Rightarrow> int \<Rightarrow> DateTime" where
  "add_days t k = (if 0 \<le> k then (next_day ^^ nat k) t else (prev_day ^^ nat (- k)) t)"

text \<open>
  The same steps with the limits of the calendar: \<^verbatim>\<open>dt.add(days=1)\<close> on 9999-12-31,
  \<^verbatim>\<open>dt.subtract(days=1)\<close> and \<^verbatim>\<open>dt - pendulum.duration(days=1)\<close> on 0001-01-01, and
  \<^verbatim>\<open>dt.subtract(days=k)\<close> past either end raise \<^verbatim>\<open>OverflowError\<close>.
\<close>

definition add_day :: "DateTime \<Rightarrow> DateTime outcome" where
  "add_day t = (if 9999 < year (next_day t) then Raise OverflowError else Return (next_day t))"

definition subtract_day :: "DateTime \<Rightarrow> DateTime outcome" where
  "subtract_day t = (if year (prev_day t) < 1 then Raise OverflowError else Return (prev_day t))"

definition shift_days :: "DateTime \<Rightarrow> int \<Rightarrow> DateTime outcome" where
  "shift_days t k =
     (let r = add_days t k
      in if 1 \<le> year r \<and> year r \<le> 9999 then Return r else Raise OverflowError)"

text \<open>Adding a number of seconds, carrying into the date.\<close>

definition add_seconds :: "DateTime \<Rightarrow> int \<Rightarrow> DateTime" where
  "add_seconds t k =
     (let total = (hour t * 60 + minute t) * 60 + second t + k;
          r = total mod 86400
      in (add_days t (total div 86400))
           \<lparr>hour := r div 3600, minute := (r mod 3600) div 60, second := r mod 60\<rparr>)"

definition add_minutes :: "DateTime \<Rightarrow> int \<Rightarrow> DateTime" where
  "add_minutes t k = add_seconds t (60 * k)"

definition add_hours :: "DateTime \<Rightarrow> int \<Rightarrow> DateTime" where
  "add_hours t k = add_seconds t (3600 * k)"

text \<open>
  \<^verbatim>\<open>pendulum.datetime(y, m, d, h, mi, s, tz=tz)\<close> and
  \<^verbatim>\<open>dt.replace(hour=h, minute=mi, second=s, microsecond=0)\<close>: both raise \<^verbatim>\<open>ValueError\<close>
  when a field is out of range; for the year the range is 1..9999.
\<close>

definition datetime :: "int \<Rightarrow> int \<Rightarrow> int \<Rightarrow> int \<Rightarrow> int \<Rightarrow> int \<Rightarrow> DateTime outcome" where
  "datetime y m d h mi s =
     (if 1 \<le> y \<and> y \<le> 9999 \<and> valid_date y m d \<and> valid_time h mi s
      then Return \<lparr>year = y, month = m, day = d, hour = h, minute = mi, second = s,
                   microsecond = 0\<rparr>
      else Raise ValueError)"

definition replace_time :: "DateTime \<Rightarrow> int \<Rightarrow> int \<Rightarrow> int \<Rightarrow> DateTime outcome" where
  "replace_time t h mi s =
     (if valid_time h mi s
      then Return (t\<lparr>hour := h, minute := mi, second := s, microsecond := 0\<rparr>)
      else Raise ValueError)"

section \<open>Intervals and restrictions\<close>

record DataInterval =
  start :: DateTime
  finish :: DateTime

record TimeRestriction =
  earliest :: "DateTime option"
  latest :: "DateTime option"
  catchup :: bool

text \<open>\<^verbatim>\<open>end = start.add(hours=1)\<close>, the window of every variant but the two interval ones.\<close>

definition hour_interval :: "DateTime \<Rightarrow> DataInterval" where
  "hour_interval d = \<lparr>start = d, finish = add_hours d 1\<rparr>"

text \<open>
  Reading the clock. The module imports \<^verbatim>\<open>datetime\<close> and \<^verbatim>\<open>now\<close> from pendulum (line 20)
  and pendulum itself (line 21). Nine classes read the clock with \<^verbatim>\<open>pendulum.now(tz)\<close>
  or \<^verbatim>\<open>now(tz)\<close> (lines 100, 203, 325, 426, 545, 647, 748, 1569): in their models the
  time read is the argument \<open>current_time\<close>. The seven others (\<^verbatim>\<open>WeeklyOnDay\<close>,
  \<^verbatim>\<open>BiweeklyOnDay\<close>, \<^verbatim>\<open>SemiMonthly\<close>, \<^verbatim>\<open>MonthlyWeekdayOccurrence\<close>, \<^verbatim>\<open>EveryNDays\<close>,
  \<^verbatim>\<open>BusinessDayOfMonth\<close>, \<^verbatim>\<open>MonthlyLastDayExceptWeekend\<close>) write
  \<^verbatim>\<open>current_time = datetime.now(tz)\<close> (lines 853, 949, 1042, 1150, 1234, 1341, 1438) as
  the first statement that touches the clock. The name \<^verbatim>\<open>datetime\<close> is pendulum's
  constructor function, and a function has no attribute \<^verbatim>\<open>now\<close>: the statement raises
  \<^verbatim>\<open>AttributeError\<close>, whatever the time is.
\<close>

definition datetime_now :: "DateTime \<Rightarrow> DateTime outcome" where
  "datetime_now clock = Raise AttributeError"

text \<open>
  The prologue that every \<^verbatim>\<open>next_dagrun_info\<close> repeats (e.g. lines 97-109, 852-862): from
  the restriction, the last automated interval and the time read from the clock to the
  instant the search starts from. \<^verbatim>\<open>EveryNInterval\<close> uses the baseline only.
\<close>

definition baseline_of :: "DateTime \<Rightarrow> TimeRestriction \<Rightarrow> DateTime" where
  "baseline_of current_time restriction =
     (let baseline = (case earliest restriction of Some e \<Rightarrow> e | None \<Rightarrow> current_time)
      in if \<not> catchup restriction then dt_max baseline current_time else baseline)"

definition search_from :: "DateTime \<Rightarrow> DataInterval option \<Rightarrow> TimeRestriction \<Rightarrow> DateTime" where
  "search_from current_time last_automated_data_interval restriction =
     (case last_automated_data_interval of
        None \<Rightarrow> baseline_of current_time restriction
      | Some prev \<Rightarrow>
          (if \<not> catchup restriction \<and> dt_lt (finish prev) current_time then current_time
           else finish prev))"

text \<open>
  The epilogue of the variants that look at \<^verbatim>\<open>restriction.latest\<close> (e.g. lines 128-131):
  \<^verbatim>\<open>None\<close> when the start found is after it.
\<close>

definition within_latest :: "TimeRestriction \<Rightarrow> DataInterval \<Rightarrow> DataInterval option" where
  "within_latest restriction iv =
     (case latest restriction of
        Some l \<Rightarrow> if dt_lt l (start iv) then None else Some iv
      | None \<Rightarrow> Some iv)"

section \<open>Steps over calendar periods\<close>

text \<open>A month is a pair (year, month); the steps are the \<^verbatim>\<open>if month == 12\<close> chains of the source.\<close>

definition next_month :: "int \<times> int \<Rightarrow> int \<times> int" where
  "next_month p = (case p of (y, m) \<Rightarrow> if m = 12 then (y + 1, 1) else (y, m + 1))"

definition prev_month :: "int \<times> int \<Rightarrow> int \<times> int" where
  "prev_month p = (case p of (y, m) \<Rightarrow> if m = 1 then (y - 1, 12) else (y, m - 1))"

definition next_quarter :: "int \<times> int \<Rightarrow> int \<times> int" where
  "next_quarter p =
     (case p of (y, m) \<Rightarrow>
        if m = 1 \<or> m = 2 \<or> m = 3 then (y, 4)
        else if m = 4 \<or> m = 5 \<or> m = 6 then (y, 7)
        else if m = 7 \<or> m = 8 \<or> m = 9 then (y, 10)
        else (y + 1, 1))"

text \<open>
  \<^verbatim>\<open>datetime(year + 1, 1, 1, tz=tz)\<close> if \<^verbatim>\<open>month == 12\<close>, else
  \<^verbatim>\<open>datetime(year, month + 1, 1, tz=tz)\<close>: the first instant of the following month.
\<close>

definition first_of_next_month :: "int \<Rightarrow> int \<Rightarrow> DateTime outcome" where
  "first_of_next_month y m =
     (if m = 12 then datetime (y + 1) 1 1 0 0 0 else datetime y (m + 1) 1 0 0 0)"

text \<open>\<^verbatim>\<open>(first_of_next_month - pendulum.duration(days=1)).day\<close>: the number of the last day.\<close>

definition last_day_number :: "int \<Rightarrow> int \<Rightarrow> int outcome" where
  "last_day_number y m =
     bind (first_of_next_month y m) (\<lambda>d. bind (subtract_day d) (\<lambda>l. Return (day l)))"

text \<open>
  The loop \<^verbatim>\<open>while True: occ = ...; if occ >= after: break; <next period>\<close> of the
  \<^verbatim>\<open>next_dagrun_info\<close> methods. \<open>fuel\<close> bounds the number of periods tried.
\<close>

fun search_forward ::
  "nat \<Rightarrow> ('p \<Rightarrow> DateTime outcome) \<Rightarrow> ('p \<Rightarrow> 'p) \<Rightarrow> DateTime \<Rightarrow> 'p \<Rightarrow> DateTime outcome" where
  "search_forward 0 occ adv after p = OutOfFuel"
| "search_forward (Suc fuel) occ adv after p =
     (case occ p of
        Return d \<Rightarrow> if dt_le after d then Return d else search_forward fuel occ adv after (adv p)
      | Raise e \<Rightarrow> Raise e
      | OutOfFuel \<Rightarrow> OutOfFuel)"

text \<open>
  The body of the \<^verbatim>\<open>infer_manual_data_interval\<close> methods that step back one period:
  the occurrence of the period of \<^verbatim>\<open>run_after\<close>, or the one of the period before when
  \<^verbatim>\<open>run_after\<close> is earlier than it.
\<close>

definition covering ::
  "('p \<Rightarrow> DateTime outcome) \<Rightarrow> ('p \<Rightarrow> 'p) \<Rightarrow> 'p \<Rightarrow> DateTime \<Rightarrow> DataInterval outcome" where
  "covering occ back p run_after =
     bind (occ p) (\<lambda>d.
     bind (if dt_lt run_after d then occ (back p) else Return d) (\<lambda>d.
     Return (hour_interval d)))"

text \<open>
  The day scans of \<^verbatim>\<open>_get_nth_weekday\<close> and \<^verbatim>\<open>_get_nth_business_day\<close>: forward from the
  first day counting up to \<^verbatim>\<open>n\<close>, backward from the last day counting down from -1.
  \<open>q\<close> is the test on the day (\<^verbatim>\<open>dt.day_of_week == self.weekday\<close>, or
  \<^verbatim>\<open>dt.day_of_week < 5\<close>); \<open>fuel\<close> bounds the number of days looked at.
\<close>

fun scan_forward :: "nat \<Rightarrow> (DateTime \<Rightarrow> bool) \<Rightarrow> int \<Rightarrow> DateTime \<Rightarrow> int \<Rightarrow> DateTime outcome" where
  "scan_forward 0 q n dt count = OutOfFuel"
| "scan_forward (Suc fuel) q n dt count =
     (if q dt
      then (if count + 1 = n then Return dt
            else bind (add_day dt) (\<lambda>dt. scan_forward fuel q n dt (count + 1)))
      else bind (add_day dt) (\<lambda>dt. scan_forward fuel q n dt count))"

fun scan_backward :: "nat \<Rightarrow> (DateTime \<Rightarrow> bool) \<Rightarrow> int \<Rightarrow> DateTime \<Rightarrow> int \<Rightarrow> DateTime outcome" where
  "scan_backward 0 q n dt count = OutOfFuel"
| "scan_backward (Suc fuel) q n dt count =
     (if q dt
      then (if n = count then Return dt
            else bind (subtract_day dt) (\<lambda>dt. scan_backward fuel q n dt (count - 1)))
      else bind (subtract_day dt) (\<lambda>dt. scan_backward fuel q n dt count))"

definition nth_day ::
  "nat \<Rightarrow> (DateTime \<Rightarrow> bool) \<Rightarrow> int \<Rightarrow> int \<Rightarrow> int \<Rightarrow> int \<Rightarrow> int \<Rightarrow> int \<Rightarrow> DateTime outcome" where
  "nth_day fuel q n h mi s y m =
     (if n > 0
      then bind (datetime y m 1 0 0 0) (\<lambda>dt.
           bind (scan_forward fuel q n dt 0) (\<lambda>dt. replace_time dt h mi s))
      else bind (first_of_next_month y m) (\<lambda>d.
           bind (subtract_day d) (\<lambda>dt.
           bind (scan_backward fuel q n dt (- 1)) (\<lambda>dt. replace_time dt h mi s))))"

section \<open>The timetables\<close>

subsection \<open>MonthlyLastDay\<close>

definition MonthlyLastDay_get_last_day :: "int \<Rightarrow> int \<Rightarrow> int \<Rightarrow> int \<times> int \<Rightarrow> DateTime outcome" where
  "MonthlyLastDay_get_last_day h mi s p =
     (case p of (y, m) \<Rightarrow>
        bind (first_of_next_month y m) (\<lambda>next_month.
        bind (subtract_day next_month) (\<lambda>last_day. replace_time last_day h mi s)))"

definition MonthlyLastDay_infer_manual_data_interval ::
  "int \<Rightarrow> int \<Rightarrow> int \<Rightarrow> DateTime \<Rightarrow> DataInterval outcome" where
  "MonthlyLastDay_infer_manual_data_interval h mi s run_after =
     covering (MonthlyLastDay_get_last_day h mi s) prev_month
       (year run_after, month run_after) run_after"

definition MonthlyLastDay_next_dagrun_info ::
  "nat \<Rightarrow> int \<Rightarrow> int \<Rightarrow> int \<Rightarrow> DateTime \<Rightarrow> DataInterval option \<Rightarrow> TimeRestriction
     \<Rightarrow> DataInterval option outcome" where
  "MonthlyLastDay_next_dagrun_info pf h mi s current_time last_automated_data_interval restriction =
     (let after = search_from current_time last_automated_data_interval restriction
      in bind (search_forward pf (MonthlyLastDay_get_last_day h mi s) next_month after
                 (year after, month after))
           (\<lambda>d. Return (within_latest restriction (hour_interval d))))"

subsection \<open>MonthlyOnDay\<close>

definition MonthlyOnDay_get_run_date ::
  "int \<Rightarrow> int \<Rightarrow> int \<Rightarrow> int \<Rightarrow> int \<times> int \<Rightarrow> DateTime outcome" where
  "MonthlyOnDay_get_run_date dd h mi s p =
     (case p of (y, m) \<Rightarrow>
        bind (if m < 12 then datetime y (m + 1) 1 0 0 0 else datetime (y + 1) 1 1 0 0 0) (\<lambda>d.
        bind (subtract_day d) (\<lambda>l.
        datetime y m (min dd (day l)) h mi s)))"

definition MonthlyOnDay_infer_manual_data_interval ::
  "int \<Rightarrow> int \<Rightarrow> int \<Rightarrow> int \<Rightarrow> DateTime \<Rightarrow> DataInterval outcome" where
  "MonthlyOnDay_infer_manual_data_interval dd h mi s run_after =
     covering (MonthlyOnDay_get_run_date dd h mi s) prev_month
       (year run_after, month run_after) run_after"

definition MonthlyOnDay_next_dagrun_info ::
  "nat \<Rightarrow> int \<Rightarrow> int \<Rightarrow> int \<Rightarrow> int \<Rightarrow> DateTime \<Rightarrow> DataInterval option \<Rightarrow> TimeRestriction
     \<Rightarrow> DataInterval option outcome" where
  "MonthlyOnDay_next_dagrun_info pf dd h mi s current_time last_automated_data_interval restriction =
     (let after = search_from current_time last_automated_data_interval restriction
      in bind (search_forward pf (MonthlyOnDay_get_run_date dd h mi s) next_month after
                 (year after, month after))
           (\<lambda>d. Return (within_latest restriction (hour_interval d))))"

subsection \<open>MonthlyMultipleDays\<close>

text \<open>\<^verbatim>\<open>self.days = sorted(set(days))\<close>, with \<^verbatim>\<open>[1]\<close> for \<^verbatim>\<open>None\<close>.\<close>

definition MonthlyMultipleDays_init_days :: "int list option \<Rightarrow> int list" where
  "MonthlyMultipleDays_init_days days =
     (case days of None \<Rightarrow> [1] | Some ds \<Rightarrow> sorted_list_of_set (set ds))"

text \<open>The \<^verbatim>\<open>for d in valid_days\<close> loop: the first candidate at or after \<^verbatim>\<open>after\<close>.\<close>

fun first_candidate ::
  "int \<Rightarrow> int \<Rightarrow> int \<Rightarrow> int \<Rightarrow> int \<Rightarrow> DateTime \<Rightarrow> int list \<Rightarrow> DateTime option outcome" where
  "first_candidate y m h mi s after [] = Return None"
| "first_candidate y m h mi s after (d # ds) =
     (case datetime y m d h mi s of
        Return candidate \<Rightarrow>
          if dt_le after candidate then Return (Some candidate)
          else first_candidate y m h mi s after ds
      | Raise e \<Rightarrow> Raise e
      | OutOfFuel \<Rightarrow> OutOfFuel)"

text \<open>The \<^verbatim>\<open>while True\<close> loop over the following months (lines 300-312).\<close>

fun following_months ::
  "nat \<Rightarrow> int list \<Rightarrow> int \<Rightarrow> int \<Rightarrow> int \<Rightarrow> int \<times> int \<Rightarrow> DateTime outcome" where
  "following_months 0 days h mi s p = OutOfFuel"
| "following_months (Suc fuel) days h mi s p =
     (case next_month p of (y, m) \<Rightarrow>
        (case last_day_number y m of
           Return last_day \<Rightarrow>
             (case filter (\<lambda>d. 1 \<le> d \<and> d \<le> last_day) days of
                [] \<Rightarrow> following_months fuel days h mi s (y, m)
              | d # ds \<Rightarrow> datetime y m d h mi s)
         | Raise e \<Rightarrow> Raise e
         | OutOfFuel \<Rightarrow> OutOfFuel))"

definition MonthlyMultipleDays_get_next_run_date ::
  "nat \<Rightarrow> int list \<Rightarrow> int \<Rightarrow> int \<Rightarrow> int \<Rightarrow> DateTime \<Rightarrow> DateTime outcome" where
  "MonthlyMultipleDays_get_next_run_date pf days h mi s after =
     (let y = year after; m = month after
      in bind (last_day_number y m) (\<lambda>last_day.
         bind (first_candidate y m h mi s after (filter (\<lambda>d. 1 \<le> d \<and> d \<le> last_day) days))
           (\<lambda>found. case found of
                       Some candidate \<Rightarrow> Return candidate
                     | None \<Rightarrow> following_months pf days h mi s (y, m))))"

definition MonthlyMultipleDays_infer_manual_data_interval ::
  "nat \<Rightarrow> int list \<Rightarrow> int \<Rightarrow> int \<Rightarrow> int \<Rightarrow> DateTime \<Rightarrow> DataInterval outcome" where
  "MonthlyMultipleDays_infer_manual_data_interval pf days h mi s run_after =
     bind (MonthlyMultipleDays_get_next_run_date pf days h mi s run_after)
       (\<lambda>next_run. Return (hour_interval next_run))"

definition MonthlyMultipleDays_next_dagrun_info ::
  "nat \<Rightarrow> int list \<Rightarrow> int \<Rightarrow> int \<Rightarrow> int \<Rightarrow> DateTime \<Rightarrow> DataInterval option \<Rightarrow> TimeRestriction
     \<Rightarrow> DataInterval option outcome" where
  "MonthlyMultipleDays_next_dagrun_info pf days h mi s current_time last_automated_data_interval
       restriction =
     (let after = search_from current_time last_automated_data_interval restriction
      in bind (MonthlyMultipleDays_get_next_run_date pf days h mi s after)
           (\<lambda>next_run. Return (within_latest restriction (hour_interval next_run))))"

subsection \<open>QuarterlyFirstDay\<close>

definition QuarterlyFirstDay_get_first_day_of_quarter ::
  "int \<Rightarrow> int \<Rightarrow> int \<Rightarrow> int \<times> int \<Rightarrow> DateTime outcome" where
  "QuarterlyFirstDay_get_first_day_of_quarter h mi s p =
     (case p of (y, m) \<Rightarrow>
        (let quarter_month =
               (if m = 1 \<or> m = 2 \<or> m = 3 then 1
                else if m = 4 \<or> m = 5 \<or> m = 6 then 4
                else if m = 7 \<or> m = 8 \<or> m = 9 then 7
                else 10)
         in datetime y quarter_month 1 h mi s))"

definition QuarterlyFirstDay_previous_quarter :: "int \<times> int \<Rightarrow> int \<times> int" where
  "QuarterlyFirstDay_previous_quarter p =
     (case p of (y, m) \<Rightarrow>
        if m = 1 \<or> m = 2 \<or> m = 3 then (y - 1, 10)
        else if m = 4 \<or> m = 5 \<or> m = 6 then (y, 1)
        else if m = 7 \<or> m = 8 \<or> m = 9 then (y, 4)
        else (y, 7))"

definition QuarterlyFirstDay_infer_manual_data_interval ::
  "int \<Rightarrow> int \<Rightarrow> int \<Rightarrow> DateTime \<Rightarrow> DataInterval outcome" where
  "QuarterlyFirstDay_infer_manual_data_interval h mi s run_after =
     covering (QuarterlyFirstDay_get_first_day_of_quarter h mi s) QuarterlyFirstDay_previous_quarter
       (year run_after, month run_after) run_after"

definition QuarterlyFirstDay_next_dagrun_info ::
  "nat \<Rightarrow> int \<Rightarrow> int \<Rightarrow> int \<Rightarrow> DateTime \<Rightarrow> DataInterval option \<Rightarrow> TimeRestriction
     \<Rightarrow> DataInterval option outcome" where
  "QuarterlyFirstDay_next_dagrun_info pf h mi s current_time last_automated_data_interval restriction =
     (let next_run = search_from current_time last_automated_data_interval restriction
      in bind (search_forward pf (QuarterlyFirstDay_get_first_day_of_quarter h mi s) next_quarter
                 next_run (year next_run, month next_run))
           (\<lambda>d. Return (within_latest restriction (hour_interval d))))"

subsection \<open>QuarterlyLastDay\<close>

definition QuarterlyLastDay_get_last_day_of_quarter ::
  "int \<Rightarrow> int \<Rightarrow> int \<Rightarrow> int \<times> int \<Rightarrow> DateTime outcome" where
  "QuarterlyLastDay_get_last_day_of_quarter h mi s p =
     (case p of (y, m) \<Rightarrow>
        (let last_month =
               (if m = 1 \<or> m = 2 \<or> m = 3 then 3
                else if m = 4 \<or> m = 5 \<or> m = 6 then 6
                else if m = 7 \<or> m = 8 \<or> m = 9 then 9
                else 12)
         in bind (first_of_next_month y last_month) (\<lambda>next_month.
            bind (subtract_day next_month) (\<lambda>last_day. replace_time last_day h mi s))))"

definition QuarterlyLastDay_previous_quarter :: "int \<times> int \<Rightarrow> int \<times> int" where
  "QuarterlyLastDay_previous_quarter p =
     (case p of (y, m) \<Rightarrow>
        if m = 1 \<or> m = 2 \<or> m = 3 then (y - 1, 12)
        else if m = 4 \<or> m = 5 \<or> m = 6 then (y, 3)
        else if m = 7 \<or> m = 8 \<or> m = 9 then (y, 6)
        else (y, 9))"

definition QuarterlyLastDay_infer_manual_data_interval ::
  "int \<Rightarrow> int \<Rightarrow> int \<Rightarrow> DateTime \<Rightarrow> DataInterval outcome" where
  "QuarterlyLastDay_infer_manual_data_interval h mi s run_after =
     covering (QuarterlyLastDay_get_last_day_of_quarter h mi s) QuarterlyLastDay_previous_quarter
       (year run_after, month run_after) run_after"

definition QuarterlyLastDay_next_dagrun_info ::
  "nat \<Rightarrow> int \<Rightarrow> int \<Rightarrow> int \<Rightarrow> DateTime \<Rightarrow> DataInterval option \<Rightarrow> TimeRestriction
     \<Rightarrow> DataInterval option outcome" where
  "QuarterlyLastDay_next_dagrun_info pf h mi s current_time last_automated_data_interval restriction =
     (let next_run = search_from current_time last_automated_data_interval restriction
      in bind (search_forward pf (QuarterlyLastDay_get_last_day_of_quarter h mi s) next_quarter
                 next_run (year next_run, month next_run))
           (\<lambda>d. Return (within_latest restriction (hour_interval d))))"

subsection \<open>YearlyFirstDay\<close>

definition YearlyFirstDay_get_first_day_of_year :: "int \<Rightarrow> int \<Rightarrow> int \<Rightarrow> int \<Rightarrow> DateTime outcome" where
  "YearlyFirstDay_get_first_day_of_year h mi s y = datetime y 1 1 h mi s"

definition YearlyFirstDay_infer_manual_data_interval ::
  "int \<Rightarrow> int \<Rightarrow> int \<Rightarrow> DateTime \<Rightarrow> DataInterval outcome" where
  "YearlyFirstDay_infer_manual_data_interval h mi s run_after =
     covering (YearlyFirstDay_get_first_day_of_year h mi s) (\<lambda>y. y - 1) (year run_after) run_after"

definition YearlyFirstDay_next_dagrun_info ::
  "nat \<Rightarrow> int \<Rightarrow> int \<Rightarrow> int \<Rightarrow> DateTime \<Rightarrow> DataInterval option \<Rightarrow> TimeRestriction
     \<Rightarrow> DataInterval option outcome" where
  "YearlyFirstDay_next_dagrun_info pf h mi s current_time last_automated_data_interval restriction =
     (let next_run = search_from current_time last_automated_data_interval restriction
      in bind (search_forward pf (YearlyFirstDay_get_first_day_of_year h mi s) (\<lambda>y. y + 1)
                 next_run (year next_run))
           (\<lambda>d. Return (within_latest restriction (hour_interval d))))"

subsection \<open>YearlyWeekdayOccurrence\<close>

text \<open>
  \<^verbatim>\<open>_get_nth_weekday(year)\<close> (lines 705-729) is the text of
  \<^verbatim>\<open>MonthlyWeekdayOccurrence._get_nth_weekday(year, month)\<close> with \<^verbatim>\<open>self.month\<close> for the month.
\<close>

definition YearlyWeekdayOccurrence_get_nth_weekday ::
  "nat \<Rightarrow> int \<Rightarrow> int \<Rightarrow> int \<Rightarrow> int \<Rightarrow> int \<Rightarrow> int \<Rightarrow> int \<Rightarrow> DateTime outcome" where
  "YearlyWeekdayOccurrence_get_nth_weekday df mo wd n h mi s y =
     nth_day df (\<lambda>dt. day_of_week dt = wd) n h mi s y mo"

definition YearlyWeekdayOccurrence_infer_manual_data_interval ::
  "nat \<Rightarrow> int \<Rightarrow> int \<Rightarrow> int \<Rightarrow> int \<Rightarrow> int \<Rightarrow> int \<Rightarrow> DateTime \<Rightarrow> DataInterval outcome" where
  "YearlyWeekdayOccurrence_infer_manual_data_interval df mo wd n h mi s run_after =
     covering (YearlyWeekdayOccurrence_get_nth_weekday df mo wd n h mi s) (\<lambda>y. y - 1)
       (year run_after) run_after"

definition YearlyWeekdayOccurrence_next_dagrun_info ::
  "nat \<Rightarrow> nat \<Rightarrow> int \<Rightarrow> int \<Rightarrow> int \<Rightarrow> int \<Rightarrow> int \<Rightarrow> int \<Rightarrow> DateTime \<Rightarrow> DataInterval option
     \<Rightarrow> TimeRestriction \<Rightarrow> DataInterval option outcome" where
  "YearlyWeekdayOccurrence_next_dagrun_info pf df mo wd n h mi s current_time
       last_automated_data_interval restriction =
     (let next_run = search_from current_time last_automated_data_interval restriction
      in bind (search_forward pf (YearlyWeekdayOccurrence_get_nth_weekday df mo wd n h mi s)
                 (\<lambda>y. y + 1) next_run (year next_run))
           (\<lambda>d. Return (within_latest restriction (hour_interval d))))"

subsection \<open>WeeklyOnDay\<close>

definition WeeklyOnDay_get_next_weekday ::
  "int \<Rightarrow> int \<Rightarrow> int \<Rightarrow> int \<Rightarrow> DateTime \<Rightarrow> DateTime outcome" where
  "WeeklyOnDay_get_next_weekday wd h mi s after =
     (let days_ahead = (wd - day_of_week after + 7) mod 7;
          days_ahead = (if days_ahead = 0 \<and> hour after \<ge> h \<and> minute after \<ge> mi then 7
                        else days_ahead)
      in replace_time (add_days after days_ahead) h mi s)"

definition WeeklyOnDay_infer_manual_data_interval ::
  "int \<Rightarrow> int \<Rightarrow> int \<Rightarrow> int \<Rightarrow> DateTime \<Rightarrow> DataInterval outcome" where
  "WeeklyOnDay_infer_manual_data_interval wd h mi s run_after =
     bind (WeeklyOnDay_get_next_weekday wd h mi s run_after)
       (\<lambda>next_run. Return (hour_interval next_run))"

definition WeeklyOnDay_next_dagrun_info ::
  "int \<Rightarrow> int \<Rightarrow> int \<Rightarrow> int \<Rightarrow> DateTime \<Rightarrow> DataInterval option \<Rightarrow> TimeRestriction
     \<Rightarrow> DataInterval option outcome" where
  "WeeklyOnDay_next_dagrun_info wd h mi s clock last_automated_data_interval restriction =
     bind (datetime_now clock) (\<lambda>current_time.
       (let after = search_from current_time last_automated_data_interval restriction
        in bind (WeeklyOnDay_get_next_weekday wd h mi s after)
             (\<lambda>next_run. Return (Some (hour_interval next_run)))))"

subsection \<open>BiweeklyOnDay\<close>

text \<open>
  \<^verbatim>\<open>pendulum.parse(self.anchor_date, tz=tz)\<close> for the form the docstring gives,
  \<^verbatim>\<open>YYYY-MM-DD\<close>: midnight of that date. The other ISO 8601 forms that pendulum reads are
  outside the model, which treats them like a malformed string.
\<close>

definition digit_of :: "char \<Rightarrow> int option" where
  "digit_of c =
     (let k = (of_char c :: nat) in if 48 \<le> k \<and> k \<le> 57 then Some (int k - 48) else None)"

fun digits_value :: "int \<Rightarrow> string \<Rightarrow> int option" where
  "digits_value acc [] = Some acc"
| "digits_value acc (c # cs) =
     (case digit_of c of None \<Rightarrow> None | Some v \<Rightarrow> digits_value (10 * acc + v) cs)"

definition parse_date :: "string \<Rightarrow> DateTime outcome" where
  "parse_date str =
     (if length str = 10 \<and> str ! 4 = CHR ''-'' \<and> str ! 7 = CHR ''-''
      then (case (digits_value 0 (take 4 str), digits_value 0 (take 2 (drop 5 str)),
                  digits_value 0 (drop 8 str)) of
              (Some y, Some m, Some d) \<Rightarrow> datetime y m d 0 0 0
            | _ \<Rightarrow> Raise ValueError)
      else Raise ValueError)"

definition BiweeklyOnDay_get_next_biweekly ::
  "int \<Rightarrow> int \<Rightarrow> int \<Rightarrow> int \<Rightarrow> string \<Rightarrow> DateTime \<Rightarrow> DateTime outcome" where
  "BiweeklyOnDay_get_next_biweekly wd h mi s anchor_date after =
     bind (parse_date anchor_date) (\<lambda>anchor.
     (let days_to_weekday = (wd - day_of_week anchor + 7) mod 7
      in bind (replace_time (add_days anchor days_to_weekday) h mi s) (\<lambda>first_run.
         if dt_lt after first_run then Return first_run
         else
           (let delta_days = (instant after - instant first_run) div 86400000000;
                cycles = delta_days div 14
                  + (if dt_le after (add_seconds (add_days first_run 13) 86399) then 0 else 1);
                next_run = add_days first_run (7 * (cycles * 2))
            in Return (if dt_le next_run after then add_days next_run 14 else next_run)))))"

definition BiweeklyOnDay_infer_manual_data_interval ::
  "int \<Rightarrow> int \<Rightarrow> int \<Rightarrow> int \<Rightarrow> string \<Rightarrow> DateTime \<Rightarrow> DataInterval outcome" where
  "BiweeklyOnDay_infer_manual_data_interval wd h mi s anchor_date run_after =
     bind (BiweeklyOnDay_get_next_biweekly wd h mi s anchor_date run_after)
       (\<lambda>next_run. Return (hour_interval next_run))"

definition BiweeklyOnDay_next_dagrun_info ::
  "int \<Rightarrow> int \<Rightarrow> int \<Rightarrow> int \<Rightarrow> string \<Rightarrow> DateTime \<Rightarrow> DataInterval option \<Rightarrow> TimeRestriction
     \<Rightarrow> DataInterval option outcome" where
  "BiweeklyOnDay_next_dagrun_info wd h mi s anchor_date clock last_automated_data_interval
       restriction =
     bind (datetime_now clock) (\<lambda>current_time.
       (let after = search_from current_time last_automated_data_interval restriction
        in bind (BiweeklyOnDay_get_next_biweekly wd h mi s anchor_date after)
             (\<lambda>next_run. Return (Some (hour_interval next_run)))))"

subsection \<open>SemiMonthly\<close>

text \<open>Python's \<^verbatim>\<open>min(a, b)\<close>: the first argument unless the second is smaller.\<close>

definition dt_min :: "DateTime \<Rightarrow> DateTime \<Rightarrow> DateTime" where
  "dt_min a b = (if dt_lt b a then b else a)"

text \<open>The 15th and the last day of a month, at the configured time.\<close>

definition SemiMonthly_candidates ::
  "int \<Rightarrow> int \<Rightarrow> int \<Rightarrow> int \<times> int \<Rightarrow> (DateTime \<times> DateTime) outcome" where
  "SemiMonthly_candidates h mi s p =
     (case p of (y, m) \<Rightarrow>
        bind (datetime y m 15 h mi s) (\<lambda>fifteenth.
        bind (last_day_number y m) (\<lambda>last_day.
        bind (datetime y m last_day h mi s) (\<lambda>last_one.
        Return (fifteenth, last_one)))))"

text \<open>
  The \<^verbatim>\<open>while True\<close> of lines 1022-1034 returns in its first iteration, whatever the
  month: it is no loop.
\<close>

definition SemiMonthly_get_next_run_date ::
  "int \<Rightarrow> int \<Rightarrow> int \<Rightarrow> DateTime \<Rightarrow> DateTime outcome" where
  "SemiMonthly_get_next_run_date h mi s after =
     bind (SemiMonthly_candidates h mi s (year after, month after)) (\<lambda>c.
       (case filter (\<lambda>dt. dt_le after dt) [fst c, snd c] of
          [] \<Rightarrow>
            bind (SemiMonthly_candidates h mi s (next_month (year after, month after)))
              (\<lambda>c'. Return (dt_min (fst c') (snd c')))
        | [a] \<Rightarrow> Return a
        | a # b # rest \<Rightarrow> Return (dt_min a b)))"

definition SemiMonthly_infer_manual_data_interval ::
  "int \<Rightarrow> int \<Rightarrow> int \<Rightarrow> DateTime \<Rightarrow> DataInterval outcome" where
  "SemiMonthly_infer_manual_data_interval h mi s run_after =
     bind (SemiMonthly_get_next_run_date h mi s run_after)
       (\<lambda>next_run. Return (hour_interval next_run))"

definition SemiMonthly_next_dagrun_info ::
  "int \<Rightarrow> int \<Rightarrow> int \<Rightarrow> DateTime \<Rightarrow> DataInterval option \<Rightarrow> TimeRestriction
     \<Rightarrow> DataInterval option outcome" where
  "SemiMonthly_next_dagrun_info h mi s clock last_automated_data_interval restriction =
     bind (datetime_now clock) (\<lambda>current_time.
       (let after = search_from current_time last_automated_data_interval restriction
        in bind (SemiMonthly_get_next_run_date h mi s after)
             (\<lambda>next_run. Return (Some (hour_interval next_run)))))"

subsection \<open>MonthlyWeekdayOccurrence\<close>

definition MonthlyWeekdayOccurrence_get_nth_weekday ::
  "nat \<Rightarrow> int \<Rightarrow> int \<Rightarrow> int \<Rightarrow> int \<Rightarrow> int \<Rightarrow> int \<times> int \<Rightarrow> DateTime outcome" where
  "MonthlyWeekdayOccurrence_get_nth_weekday df wd n h mi s p =
     (case p of (y, m) \<Rightarrow> nth_day df (\<lambda>dt. day_of_week dt = wd) n h mi s y m)"

definition MonthlyWeekdayOccurrence_infer_manual_data_interval ::
  "nat \<Rightarrow> int \<Rightarrow> int \<Rightarrow> int \<Rightarrow> int \<Rightarrow> int \<Rightarrow> DateTime \<Rightarrow> DataInterval outcome" where
  "MonthlyWeekdayOccurrence_infer_manual_data_interval df wd n h mi s run_after =
     covering (MonthlyWeekdayOccurrence_get_nth_weekday df wd n h mi s) prev_month
       (year run_after, month run_after) run_after"

definition MonthlyWeekdayOccurrence_next_dagrun_info ::
  "nat \<Rightarrow> nat \<Rightarrow> int \<Rightarrow> int \<Rightarrow> int \<Rightarrow> int \<Rightarrow> int \<Rightarrow> DateTime \<Rightarrow> DataInterval option
     \<Rightarrow> TimeRestriction \<Rightarrow> DataInterval option outcome" where
  "MonthlyWeekdayOccurrence_next_dagrun_info pf df wd n h mi s clock
       last_automated_data_interval restriction =
     bind (datetime_now clock) (\<lambda>current_time.
       (let next_run = search_from current_time last_automated_data_interval restriction
        in bind (search_forward pf (MonthlyWeekdayOccurrence_get_nth_weekday df wd n h mi s)
                   next_month next_run (year next_run, month next_run))
             (\<lambda>d. Return (Some (hour_interval d)))))"

subsection \<open>EveryNDays\<close>

text \<open>\<^verbatim>\<open>while base > run_after: base = base.subtract(days=self.interval_days)\<close>.\<close>

fun EveryNDays_step_back :: "nat \<Rightarrow> int \<Rightarrow> DateTime \<Rightarrow> DateTime \<Rightarrow> DateTime outcome" where
  "EveryNDays_step_back 0 interval_days run_after base = OutOfFuel"
| "EveryNDays_step_back (Suc fuel) interval_days run_after base =
     (if dt_lt run_after base
      then bind (shift_days base (- interval_days))
             (\<lambda>base. EveryNDays_step_back fuel interval_days run_after base)
      else Return base)"

definition EveryNDays_infer_manual_data_interval ::
  "nat \<Rightarrow> int \<Rightarrow> int \<Rightarrow> int \<Rightarrow> int \<Rightarrow> DateTime \<Rightarrow> DataInterval outcome" where
  "EveryNDays_infer_manual_data_interval df interval_days h mi s run_after =
     bind (replace_time run_after h mi s) (\<lambda>base.
     bind (EveryNDays_step_back df interval_days run_after base) (\<lambda>base.
     Return \<lparr>start = base, finish = add_days base interval_days\<rparr>))"

definition EveryNDays_next_dagrun_info ::
  "int \<Rightarrow> int \<Rightarrow> int \<Rightarrow> int \<Rightarrow> DateTime \<Rightarrow> DataInterval option \<Rightarrow> TimeRestriction
     \<Rightarrow> DataInterval option outcome" where
  "EveryNDays_next_dagrun_info interval_days h mi s clock last_automated_data_interval
       restriction =
     bind (datetime_now clock) (\<lambda>current_time.
       (let next_run = search_from current_time last_automated_data_interval restriction
        in bind (replace_time next_run h mi s) (\<lambda>aligned.
           (let aligned = (if dt_lt aligned next_run then add_days aligned 1 else aligned)
            in Return (Some \<lparr>start = aligned, finish = add_days aligned interval_days\<rparr>)))))"

subsection \<open>BusinessDayOfMonth\<close>

definition BusinessDayOfMonth_get_nth_business_day ::
  "nat \<Rightarrow> int \<Rightarrow> int \<Rightarrow> int \<Rightarrow> int \<Rightarrow> int \<times> int \<Rightarrow> DateTime outcome" where
  "BusinessDayOfMonth_get_nth_business_day df n h mi s p =
     (case p of (y, m) \<Rightarrow> nth_day df (\<lambda>dt. day_of_week dt < 5) n h mi s y m)"

definition BusinessDayOfMonth_infer_manual_data_interval ::
  "nat \<Rightarrow> int \<Rightarrow> int \<Rightarrow> int \<Rightarrow> int \<Rightarrow> DateTime \<Rightarrow> DataInterval outcome" where
  "BusinessDayOfMonth_infer_manual_data_interval df n h mi s run_after =
     covering (BusinessDayOfMonth_get_nth_business_day df n h mi s) prev_month
       (year run_after, month run_after) run_after"

definition BusinessDayOfMonth_next_dagrun_info ::
  "nat \<Rightarrow> nat \<Rightarrow> int \<Rightarrow> int \<Rightarrow> int \<Rightarrow> int \<Rightarrow> DateTime \<Rightarrow> DataInterval option
     \<Rightarrow> TimeRestriction \<Rightarrow> DataInterval option outcome" where
  "BusinessDayOfMonth_next_dagrun_info pf df n h mi s clock last_automated_data_interval
       restriction =
     bind (datetime_now clock) (\<lambda>current_time.
       (let next_run = search_from current_time last_automated_data_interval restriction
        in bind (search_forward pf (BusinessDayOfMonth_get_nth_business_day df n h mi s)
                   next_month next_run (year next_run, month next_run))
             (\<lambda>d. Return (Some (hour_interval d)))))"

subsection \<open>MonthlyLastDayExceptWeekend\<close>

text \<open>\<^verbatim>\<open>while last_day.day_of_week > 4: last_day = last_day.subtract(days=1)\<close>.\<close>

fun skip_weekend :: "nat \<Rightarrow> DateTime \<Rightarrow> DateTime outcome" where
  "skip_weekend 0 last_day = OutOfFuel"
| "skip_weekend (Suc fuel) last_day =
     (if day_of_week last_day > 4
      then bind (subtract_day last_day) (\<lambda>last_day. skip_weekend fuel last_day)
      else Return last_day)"

definition MonthlyLastDayExceptWeekend_get_last_day ::
  "nat \<Rightarrow> int \<Rightarrow> int \<Rightarrow> int \<Rightarrow> int \<times> int \<Rightarrow> DateTime outcome" where
  "MonthlyLastDayExceptWeekend_get_last_day df h mi s p =
     (case p of (y, m) \<Rightarrow>
        bind (first_of_next_month y m) (\<lambda>next_month.
        bind (subtract_day next_month) (\<lambda>last_day.
        bind (skip_weekend df last_day) (\<lambda>last_day. replace_time last_day h mi s))))"

definition MonthlyLastDayExceptWeekend_infer_manual_data_interval ::
  "nat \<Rightarrow> int \<Rightarrow> int \<Rightarrow> int \<Rightarrow> DateTime \<Rightarrow> DataInterval outcome" where
  "MonthlyLastDayExceptWeekend_infer_manual_data_interval df h mi s run_after =
     covering (MonthlyLastDayExceptWeekend_get_last_day df h mi s) prev_month
       (year run_after, month run_after) run_after"

definition MonthlyLastDayExceptWeekend_next_dagrun_info ::
  "nat \<Rightarrow> nat \<Rightarrow> int \<Rightarrow> int \<Rightarrow> int \<Rightarrow> DateTime \<Rightarrow> DataInterval option \<Rightarrow> TimeRestriction
     \<Rightarrow> DataInterval option outcome" where
  "MonthlyLastDayExceptWeekend_next_dagrun_info pf df h mi s clock
       last_automated_data_interval restriction =
     bind (datetime_now clock) (\<lambda>current_time.
       (let next_run = search_from current_time last_automated_data_interval restriction
        in bind (search_forward pf (MonthlyLastDayExceptWeekend_get_last_day df h mi s)
                   next_month next_run (year next_run, month next_run))
             (\<lambda>d. Return (Some (hour_interval d)))))"

subsection \<open>EveryNInterval\<close>

text \<open>\<^verbatim>\<open>dt.replace(hour=0, minute=0, second=0, microsecond=0)\<close>.\<close>

definition midnight :: "DateTime \<Rightarrow> DateTime" where
  "midnight t = t\<lparr>hour := 0, minute := 0, second := 0, microsecond := 0\<rparr>"

text \<open>
  Lines 1552-1555 and 1573-1576: the point of the grid of step \<open>total_minutes\<close> anchored
  at midnight of the day of \<open>t\<close> that is at or before \<open>t\<close>.
  \<^verbatim>\<open>int((t - anchor).total_minutes())\<close> is the number of whole minutes since midnight.
\<close>

definition grid_floor :: "int \<Rightarrow> DateTime \<Rightarrow> DateTime" where
  "grid_floor total_minutes t =
     (let anchor = midnight t;
          minutes_since_anchor = (instant t - instant anchor) div 60000000;
          aligned_minutes = (minutes_since_anchor div total_minutes) * total_minutes
      in add_minutes anchor aligned_minutes)"

definition EveryNInterval_infer_manual_data_interval ::
  "int \<Rightarrow> int \<Rightarrow> DateTime \<Rightarrow> DataInterval outcome" where
  "EveryNInterval_infer_manual_data_interval interval_minutes interval_hours run_after =
     (let total_minutes = interval_hours * 60 + interval_minutes
      in if total_minutes = 0 then Raise ValueError
         else (let aligned = grid_floor total_minutes run_after
               in Return \<lparr>start = aligned, finish = add_minutes aligned total_minutes\<rparr>))"

definition EveryNInterval_next_dagrun_info ::
  "int \<Rightarrow> int \<Rightarrow> DateTime \<Rightarrow> DataInterval option \<Rightarrow> TimeRestriction
     \<Rightarrow> DataInterval option outcome" where
  "EveryNInterval_next_dagrun_info interval_minutes interval_hours current_time
       last_automated_data_interval restriction =
     (let total_minutes = interval_hours * 60 + interval_minutes
      in if total_minutes = 0 then Raise ValueError
         else
           (let baseline = baseline_of current_time restriction;
                aligned = grid_floor total_minutes baseline;
                aligned = (if dt_lt aligned baseline then add_minutes aligned total_minutes
                           else aligned);
                next_start =
                  (case last_automated_data_interval of
                     Some prev \<Rightarrow> if dt_lt (finish prev) aligned then aligned else finish prev
                   | None \<Rightarrow> aligned)
            in Return
                 (within_latest restriction
                    \<lparr>start = next_start, finish = add_minutes next_start total_minutes\<rparr>)))"

section \<open>The sixteen variants\<close>

text \<open>
  One constructor per class, its arguments in the order of the class's \<^verbatim>\<open>__init__\<close>:
  a value of this type is a constructed instance.
\<close>

datatype timetable =
    MonthlyLastDay int int string int
  | MonthlyOnDay int int int string int
  | MonthlyMultipleDays "int list" int int string int
  | QuarterlyFirstDay int int string int
  | QuarterlyLastDay int int string int
  | YearlyFirstDay int int string int
  | YearlyWeekdayOccurrence int int int int int string int
  | WeeklyOnDay int int int string int
  | BiweeklyOnDay int int int string int string
  | SemiMonthly int int string int
  | MonthlyWeekdayOccurrence int int int int string int
  | EveryNDays int int int string int
  | BusinessDayOfMonth int int int string int
  | MonthlyLastDayExceptWeekend int int string int
  | CronTimetable string string
  | EveryNInterval int int string

text \<open>
  \<^verbatim>\<open>CronTimetable\<close> inherits both operations from Airflow's
  \<^verbatim>\<open>CronDataIntervalTimetable\<close>, which is no part of this repository: they are parameters
  of the model.
\<close>

record cron_evaluator =
  cron_manual :: "string \<Rightarrow> string \<Rightarrow> DateTime \<Rightarrow> DataInterval outcome"
  cron_next ::
    "string \<Rightarrow> string \<Rightarrow> DateTime \<Rightarrow> DataInterval option \<Rightarrow> TimeRestriction
       \<Rightarrow> DataInterval option outcome"

text \<open>
  \<open>pf\<close> bounds the iterations of each loop over calendar periods, \<open>df\<close> those of each
  loop over days.
\<close>

fun infer_manual_data_interval ::
  "cron_evaluator \<Rightarrow> nat \<Rightarrow> nat \<Rightarrow> timetable \<Rightarrow> DateTime \<Rightarrow> DataInterval outcome" where
  "infer_manual_data_interval ce pf df (MonthlyLastDay h mi tz s) t =
     MonthlyLastDay_infer_manual_data_interval h mi s t"
| "infer_manual_data_interval ce pf df (MonthlyOnDay dd h mi tz s) t =
     MonthlyOnDay_infer_manual_data_interval dd h mi s t"
| "infer_manual_data_interval ce pf df (MonthlyMultipleDays days h mi tz s) t =
     MonthlyMultipleDays_infer_manual_data_interval pf days h mi s t"
| "infer_manual_data_interval ce pf df (QuarterlyFirstDay h mi tz s) t =
     QuarterlyFirstDay_infer_manual_data_interval h mi s t"
| "infer_manual_data_interval ce pf df (QuarterlyLastDay h mi tz s) t =
     QuarterlyLastDay_infer_manual_data_interval h mi s t"
| "infer_manual_data_interval ce pf df (YearlyFirstDay h mi tz s) t =
     YearlyFirstDay_infer_manual_data_interval h mi s t"
| "infer_manual_data_interval ce pf df (YearlyWeekdayOccurrence mo wd n h mi tz s) t =
     YearlyWeekdayOccurrence_infer_manual_data_interval df mo wd n h mi s t"
| "infer_manual_data_interval ce pf df (WeeklyOnDay wd h mi tz s) t =
     WeeklyOnDay_infer_manual_data_interval wd h mi s t"
| "infer_manual_data_interval ce pf df (BiweeklyOnDay wd h mi tz s anchor_date) t =
     BiweeklyOnDay_infer_manual_data_interval wd h mi s anchor_date t"
| "infer_manual_data_interval ce pf df (SemiMonthly h mi tz s) t =
     SemiMonthly_infer_manual_data_interval h mi s t"
| "infer_manual_data_interval ce pf df (MonthlyWeekdayOccurrence wd n h mi tz s) t =
     MonthlyWeekdayOccurrence_infer_manual_data_interval df wd n h mi s t"
| "infer_manual_data_interval ce pf df (EveryNDays interval_days h mi tz s) t =
     EveryNDays_infer_manual_data_interval df interval_days h mi s t"
| "infer_manual_data_interval ce pf df (BusinessDayOfMonth n h mi tz s) t =
     BusinessDayOfMonth_infer_manual_data_interval df n h mi s t"
| "infer_manual_data_interval ce pf df (MonthlyLastDayExceptWeekend h mi tz s) t =
     MonthlyLastDayExceptWeekend_infer_manual_data_interval df h mi s t"
| "infer_manual_data_interval ce pf df (CronTimetable cron tz) t = cron_manual ce cron tz t"
| "infer_manual_data_interval ce pf df (EveryNInterval interval_minutes interval_hours tz) t =
     EveryNInterval_infer_manual_data_interval interval_minutes interval_hours t"

fun next_dagrun_info ::
  "cron_evaluator \<Rightarrow> nat \<Rightarrow> nat \<Rightarrow> timetable \<Rightarrow> DateTime \<Rightarrow> DataInterval option
     \<Rightarrow> TimeRestriction \<Rightarrow> DataInterval option outcome" where
  "next_dagrun_info ce pf df (MonthlyLastDay h mi tz s) now prev r =
     MonthlyLastDay_next_dagrun_info pf h mi s now prev r"
| "next_dagrun_info ce pf df (MonthlyOnDay dd h mi tz s) now prev r =
     MonthlyOnDay_next_dagrun_info pf dd h mi s now prev r"
| "next_dagrun_info ce pf df (MonthlyMultipleDays days h mi tz s) now prev r =
     MonthlyMultipleDays_next_dagrun_info pf days h mi s now prev r"
| "next_dagrun_info ce pf df (QuarterlyFirstDay h mi tz s) now prev r =
     QuarterlyFirstDay_next_dagrun_info pf h mi s now prev r"
| "next_dagrun_info ce pf df (QuarterlyLastDay h mi tz s) now prev r =
     QuarterlyLastDay_next_dagrun_info pf h mi s now prev r"
| "next_dagrun_info ce pf df (YearlyFirstDay h mi tz s) now prev r =
     YearlyFirstDay_next_dagrun_info pf h mi s now prev r"
| "next_dagrun_info ce pf df (YearlyWeekdayOccurrence mo wd n h mi tz s) now prev r =
     YearlyWeekdayOccurrence_next_dagrun_info pf df mo wd n h mi s now prev r"
| "next_dagrun_info ce pf df (WeeklyOnDay wd h mi tz s) now prev r =
     WeeklyOnDay_next_dagrun_info wd h mi s now prev r"
| "next_dagrun_info ce pf df (BiweeklyOnDay wd h mi tz s anchor_date) now prev r =
     BiweeklyOnDay_next_dagrun_info wd h mi s anchor_date now prev r"
| "next_dagrun_info ce pf df (SemiMonthly h mi tz s) now prev r =
     SemiMonthly_next_dagrun_info h mi s now prev r"
| "next_dagrun_info ce pf df (MonthlyWeekdayOccurrence wd n h mi tz s) now prev r =
     MonthlyWeekdayOccurrence_next_dagrun_info pf df wd n h mi s now prev r"
| "next_dagrun_info ce pf df (EveryNDays interval_days h mi tz s) now prev r =
     EveryNDays_next_dagrun_info interval_days h mi s now prev r"
| "next_dagrun_info ce pf df (BusinessDayOfMonth n h mi tz s) now prev r =
     BusinessDayOfMonth_next_dagrun_info pf df n h mi s now prev r"
| "next_dagrun_info ce pf df (MonthlyLastDayExceptWeekend h mi tz s) now prev r =
     MonthlyLastDayExceptWeekend_next_dagrun_info pf df h mi s now prev r"
| "next_dagrun_info ce pf df (CronTimetable cron tz) now prev r = cron_next ce cron tz now prev r"
| "next_dagrun_info ce pf df (EveryNInterval interval_minutes interval_hours tz) now prev r =
     EveryNInterval_next_dagrun_info interval_minutes interval_hours now prev r"

section \<open>Construction and the configuration codec\<close>

text \<open>
  What the constructors do beyond storing their arguments: \<^verbatim>\<open>MonthlyMultipleDays\<close> orders
  and deduplicates its days; \<^verbatim>\<open>BiweeklyOnDay\<close> and \<^verbatim>\<open>MonthlyWeekdayOccurrence\<close> index the
  list of the seven weekday names with \<^verbatim>\<open>self.weekday\<close> for their description (lines 899,
  1081), which raises \<^verbatim>\<open>IndexError\<close> outside -7..6. No constructor checks anything else.
  The check of the cron expression by Airflow's \<^verbatim>\<open>CronDataIntervalTimetable.__init__\<close> is
  not modelled.
\<close>

definition weekday_name_index :: "int \<Rightarrow> unit outcome" where
  "weekday_name_index wd = (if - 7 \<le> wd \<and> wd \<le> 6 then Return () else Raise IndexError)"

definition MonthlyMultipleDays_init ::
  "int list option \<Rightarrow> int \<Rightarrow> int \<Rightarrow> string \<Rightarrow> int \<Rightarrow> timetable outcome" where
  "MonthlyMultipleDays_init days h mi tz s =
     Return (MonthlyMultipleDays (MonthlyMultipleDays_init_days days) h mi tz s)"

definition BiweeklyOnDay_init ::
  "int \<Rightarrow> int \<Rightarrow> int \<Rightarrow> string \<Rightarrow> int \<Rightarrow> string \<Rightarrow> timetable outcome" where
  "BiweeklyOnDay_init wd h mi tz s anchor_date =
     bind (weekday_name_index wd) (\<lambda>u. Return (BiweeklyOnDay wd h mi tz s anchor_date))"

definition MonthlyWeekdayOccurrence_init ::
  "int \<Rightarrow> int \<Rightarrow> int \<Rightarrow> int \<Rightarrow> string \<Rightarrow> int \<Rightarrow> timetable outcome" where
  "MonthlyWeekdayOccurrence_init wd n h mi tz s =
     bind (weekday_name_index wd) (\<lambda>u. Return (MonthlyWeekdayOccurrence wd n h mi tz s))"

text \<open>The instances a constructor can have produced.\<close>

fun constructed :: "timetable \<Rightarrow> bool" where
  "constructed (MonthlyMultipleDays days h mi tz s) \<longleftrightarrow> sorted_list_of_set (set days) = days"
| "constructed (BiweeklyOnDay wd h mi tz s anchor_date) \<longleftrightarrow> - 7 \<le> wd \<and> wd \<le> 6"
| "constructed (MonthlyWeekdayOccurrence wd n h mi tz s) \<longleftrightarrow> - 7 \<le> wd \<and> wd \<le> 6"
| "constructed tt \<longleftrightarrow> True"

text \<open>
  The flat mapping of \<^verbatim>\<open>serialize\<close>: keys to integers, strings and lists of integers.
\<close>

datatype pyval = PInt int | PStr string | PList "int list"

type_synonym pydict = "string \<Rightarrow> pyval option"

text \<open>
  \<^verbatim>\<open>data.get(key, default)\<close>, read at the type the constructor computes with. Python
  would pass a value of another type on unchecked; the typed model shows it as
  \<^verbatim>\<open>TypeError\<close>.
\<close>

definition get_int :: "pydict \<Rightarrow> string \<Rightarrow> int \<Rightarrow> int outcome" where
  "get_int data k dflt =
     (case data k of None \<Rightarrow> Return dflt | Some (PInt i) \<Rightarrow> Return i | Some v \<Rightarrow> Raise TypeError)"

definition get_str :: "pydict \<Rightarrow> string \<Rightarrow> string \<Rightarrow> string outcome" where
  "get_str data k dflt =
     (case data k of None \<Rightarrow> Return dflt | Some (PStr x) \<Rightarrow> Return x | Some v \<Rightarrow> Raise TypeError)"

definition get_list :: "pydict \<Rightarrow> string \<Rightarrow> int list \<Rightarrow> int list outcome" where
  "get_list data k dflt =
     (case data k of None \<Rightarrow> Return dflt | Some (PList x) \<Rightarrow> Return x | Some v \<Rightarrow> Raise TypeError)"

text \<open>\<^verbatim>\<open>data.get("cron")\<close>: no default, the constructor needs the expression.\<close>

definition get_required_str :: "pydict \<Rightarrow> string \<Rightarrow> string outcome" where
  "get_required_str data k = (case data k of Some (PStr x) \<Rightarrow> Return x | _ \<Rightarrow> Raise TypeError)"

text \<open>The four keys that fourteen of the classes share.\<close>

definition clock_entries :: "int \<Rightarrow> int \<Rightarrow> string \<Rightarrow> int \<Rightarrow> pydict" where
  "clock_entries h mi tz s =
     [''tz'' \<mapsto> PStr tz, ''hour'' \<mapsto> PInt h, ''minute'' \<mapsto> PInt mi, ''second'' \<mapsto> PInt s]"

text \<open>
  \<^verbatim>\<open>YearlyWeekdayOccurrence\<close> defines neither \<^verbatim>\<open>serialize\<close> nor \<^verbatim>\<open>deserialize\<close> (lines
  676-775). It inherits the defaults of Airflow's \<^verbatim>\<open>Timetable\<close>, which are no part of this
  repository: \<^verbatim>\<open>serialize\<close> returns the empty mapping and \<^verbatim>\<open>deserialize\<close> calls \<^verbatim>\<open>cls()\<close>
  with no argument. The constructor has no default for \<^verbatim>\<open>month\<close>, \<^verbatim>\<open>weekday\<close> and \<^verbatim>\<open>n\<close>
  (line 696), so that call raises \<^verbatim>\<open>TypeError\<close>.
\<close>

fun serialize :: "timetable \<Rightarrow> pydict" where
  "serialize (MonthlyLastDay h mi tz s) = clock_entries h mi tz s"
| "serialize (MonthlyOnDay dd h mi tz s) = (clock_entries h mi tz s)(''day'' \<mapsto> PInt dd)"
| "serialize (MonthlyMultipleDays days h mi tz s) =
     (clock_entries h mi tz s)(''days'' \<mapsto> PList days)"
| "serialize (QuarterlyFirstDay h mi tz s) = clock_entries h mi tz s"
| "serialize (QuarterlyLastDay h mi tz s) = clock_entries h mi tz s"
| "serialize (YearlyFirstDay h mi tz s) = clock_entries h mi tz s"
| "serialize (YearlyWeekdayOccurrence mo wd n h mi tz s) = Map.empty"
| "serialize (WeeklyOnDay wd h mi tz s) = (clock_entries h mi tz s)(''weekday'' \<mapsto> PInt wd)"
| "serialize (BiweeklyOnDay wd h mi tz s anchor_date) =
     (clock_entries h mi tz s)(''weekday'' \<mapsto> PInt wd, ''anchor_date'' \<mapsto> PStr anchor_date)"
| "serialize (SemiMonthly h mi tz s) = clock_entries h mi tz s"
| "serialize (MonthlyWeekdayOccurrence wd n h mi tz s) =
     (clock_entries h mi tz s)(''weekday'' \<mapsto> PInt wd, ''n'' \<mapsto> PInt n)"
| "serialize (EveryNDays interval_days h mi tz s) =
     (clock_entries h mi tz s)(''interval_days'' \<mapsto> PInt interval_days)"
| "serialize (BusinessDayOfMonth n h mi tz s) = (clock_entries h mi tz s)(''n'' \<mapsto> PInt n)"
| "serialize (MonthlyLastDayExceptWeekend h mi tz s) = clock_entries h mi tz s"
| "serialize (CronTimetable cron tz) = [''cron'' \<mapsto> PStr cron, ''timezone'' \<mapsto> PStr tz]"
| "serialize (EveryNInterval interval_minutes interval_hours tz) =
     [''interval_minutes'' \<mapsto> PInt interval_minutes, ''interval_hours'' \<mapsto> PInt interval_hours,
      ''tz'' \<mapsto> PStr tz]"

text \<open>The class a \<^verbatim>\<open>deserialize\<close> classmethod is called on.\<close>

datatype timetable_class =
    MonthlyLastDay_class | MonthlyOnDay_class | MonthlyMultipleDays_class
  | QuarterlyFirstDay_class | QuarterlyLastDay_class | YearlyFirstDay_class
  | YearlyWeekdayOccurrence_class | WeeklyOnDay_class | BiweeklyOnDay_class
  | SemiMonthly_class | MonthlyWeekdayOccurrence_class | EveryNDays_class
  | BusinessDayOfMonth_class | MonthlyLastDayExceptWeekend_class | CronTimetable_class
  | EveryNInterval_class

fun class_of :: "timetable \<Rightarrow> timetable_class" where
  "class_of (MonthlyLastDay h mi tz s) = MonthlyLastDay_class"
| "class_of (MonthlyOnDay dd h mi tz s) = MonthlyOnDay_class"
| "class_of (MonthlyMultipleDays days h mi tz s) = MonthlyMultipleDays_class"
| "class_of (QuarterlyFirstDay h mi tz s) = QuarterlyFirstDay_class"
| "class_of (QuarterlyLastDay h mi tz s) = QuarterlyLastDay_class"
| "class_of (YearlyFirstDay h mi tz s) = YearlyFirstDay_class"
| "class_of (YearlyWeekdayOccurrence mo wd n h mi tz s) = YearlyWeekdayOccurrence_class"
| "class_of (WeeklyOnDay wd h mi tz s) = WeeklyOnDay_class"
| "class_of (BiweeklyOnDay wd h mi tz s anchor_date) = BiweeklyOnDay_class"
| "class_of (SemiMonthly h mi tz s) = SemiMonthly_class"
| "class_of (MonthlyWeekdayOccurrence wd n h mi tz s) = MonthlyWeekdayOccurrence_class"
| "class_of (EveryNDays interval_days h mi tz s) = EveryNDays_class"
| "class_of (BusinessDayOfMonth n h mi tz s) = BusinessDayOfMonth_class"
| "class_of (MonthlyLastDayExceptWeekend h mi tz s) = MonthlyLastDayExceptWeekend_class"
| "class_of (CronTimetable cron tz) = CronTimetable_class"
| "class_of (EveryNInterval interval_minutes interval_hours tz) = EveryNInterval_class"

text \<open>
  The keyword arguments \<^verbatim>\<open>tz\<close>, \<^verbatim>\<open>hour\<close>, \<^verbatim>\<open>minute\<close>, \<^verbatim>\<open>second\<close> of a \<^verbatim>\<open>deserialize\<close>, read
  with their defaults and handed to the rest of the constructor call.
\<close>

definition with_clock ::
  "pydict \<Rightarrow> (int \<Rightarrow> int \<Rightarrow> string \<Rightarrow> int \<Rightarrow> timetable outcome) \<Rightarrow> timetable outcome" where
  "with_clock data k =
     bind (get_str data ''tz'' ''America/New_York'') (\<lambda>tz.
     bind (get_int data ''hour'' 0) (\<lambda>h.
     bind (get_int data ''minute'' 0) (\<lambda>mi.
     bind (get_int data ''second'' 0) (\<lambda>s. k h mi tz s))))"

fun deserialize :: "timetable_class \<Rightarrow> pydict \<Rightarrow> timetable outcome" where
  "deserialize MonthlyLastDay_class data =
     with_clock data (\<lambda>h mi tz s. Return (MonthlyLastDay h mi tz s))"
| "deserialize MonthlyOnDay_class data =
     bind (get_int data ''day'' 1) (\<lambda>dd.
     with_clock data (\<lambda>h mi tz s. Return (MonthlyOnDay dd h mi tz s)))"
| "deserialize MonthlyMultipleDays_class data =
     bind (get_list data ''days'' [1]) (\<lambda>days.
     with_clock data (\<lambda>h mi tz s. MonthlyMultipleDays_init (Some days) h mi tz s))"
| "deserialize QuarterlyFirstDay_class data =
     with_clock data (\<lambda>h mi tz s. Return (QuarterlyFirstDay h mi tz s))"
| "deserialize QuarterlyLastDay_class data =
     with_clock data (\<lambda>h mi tz s. Return (QuarterlyLastDay h mi tz s))"
| "deserialize YearlyFirstDay_class data =
     with_clock data (\<lambda>h mi tz s. Return (YearlyFirstDay h mi tz s))"
| "deserialize YearlyWeekdayOccurrence_class data = Raise TypeError"
| "deserialize WeeklyOnDay_class data =
     bind (get_int data ''weekday'' 0) (\<lambda>wd.
     with_clock data (\<lambda>h mi tz s. Return (WeeklyOnDay wd h mi tz s)))"
| "deserialize BiweeklyOnDay_class data =
     bind (get_int data ''weekday'' 0) (\<lambda>wd.
     with_clock data (\<lambda>h mi tz s.
     bind (get_str data ''anchor_date'' ''2024-01-01'') (\<lambda>anchor_date.
     BiweeklyOnDay_init wd h mi tz s anchor_date)))"
| "deserialize SemiMonthly_class data =
     with_clock data (\<lambda>h mi tz s. Return (SemiMonthly h mi tz s))"
| "deserialize MonthlyWeekdayOccurrence_class data =
     bind (get_int data ''weekday'' 0) (\<lambda>wd.
     bind (get_int data ''n'' 1) (\<lambda>n.
     with_clock data (\<lambda>h mi tz s. MonthlyWeekdayOccurrence_init wd n h mi tz s)))"
| "deserialize EveryNDays_class data =
     bind (get_int data ''interval_days'' 1) (\<lambda>interval_days.
     with_clock data (\<lambda>h mi tz s. Return (EveryNDays interval_days h mi tz s)))"
| "deserialize BusinessDayOfMonth_class data =
     bind (get_int data ''n'' 1) (\<lambda>n.
     with_clock data (\<lambda>h mi tz s. Return (BusinessDayOfMonth n h mi tz s)))"
| "deserialize MonthlyLastDayExceptWeekend_class data =
     with_clock data (\<lambda>h mi tz s. Return (MonthlyLastDayExceptWeekend h mi tz s))"
| "deserialize CronTimetable_class data =
     bind (get_required_str data ''cron'') (\<lambda>cron.
     bind (get_str data ''timezone'' ''America/New_York'') (\<lambda>tz.
     Return (CronTimetable cron tz)))"
| "deserialize EveryNInterval_class data =
     bind (get_int data ''interval_minutes'' 0) (\<lambda>interval_minutes.
     bind (get_int data ''interval_hours'' 0) (\<lambda>interval_hours.
     bind (get_str data ''tz'' ''America/New_York'') (\<lambda>tz.
     Return (EveryNInterval interval_minutes interval_hours tz))))"

section \<open>Configurations within the documented ranges\<close>

text \<open>
  The parameter ranges of the docstrings: a time of day, a day of the month in 1..31, a
  weekday in 0..6, a month in 1..12, an ordinal that is not 0 and stays inside every month
  (four weekdays of a kind, twenty business days), a positive number of days, a total
  interval that is not 0, and an anchor date that parses.
\<close>

fun well_formed :: "timetable \<Rightarrow> bool" where
  "well_formed (MonthlyLastDay h mi tz s) \<longleftrightarrow> valid_time h mi s"
| "well_formed (MonthlyOnDay dd h mi tz s) \<longleftrightarrow> valid_time h mi s \<and> 1 \<le> dd \<and> dd \<le> 31"
| "well_formed (MonthlyMultipleDays days h mi tz s) \<longleftrightarrow>
     valid_time h mi s \<and> list_ex (\<lambda>d. 1 \<le> d \<and> d \<le> 31) days"
| "well_formed (QuarterlyFirstDay h mi tz s) \<longleftrightarrow> valid_time h mi s"
| "well_formed (QuarterlyLastDay h mi tz s) \<longleftrightarrow> valid_time h mi s"
| "well_formed (YearlyFirstDay h mi tz s) \<longleftrightarrow> valid_time h mi s"
| "well_formed (YearlyWeekdayOccurrence mo wd n h mi tz s) \<longleftrightarrow>
     valid_time h mi s \<and> 1 \<le> mo \<and> mo \<le> 12 \<and> 0 \<le> wd \<and> wd \<le> 6
     \<and> (1 \<le> n \<and> n \<le> 4 \<or> - 4 \<le> n \<and> n \<le> - 1)"
| "well_formed (WeeklyOnDay wd h mi tz s) \<longleftrightarrow> valid_time h mi s \<and> 0 \<le> wd \<and> wd \<le> 6"
| "well_formed (BiweeklyOnDay wd h mi tz s anchor_date) \<longleftrightarrow>
     valid_time h mi s \<and> 0 \<le> wd \<and> wd \<le> 6
     \<and> (case parse_date anchor_date of Return a \<Rightarrow> True | Raise e \<Rightarrow> False | OutOfFuel \<Rightarrow> False)"
| "well_formed (SemiMonthly h mi tz s) \<longleftrightarrow> valid_time h mi s"
| "well_formed (MonthlyWeekdayOccurrence wd n h mi tz s) \<longleftrightarrow>
     valid_time h mi s \<and> 0 \<le> wd \<and> wd \<le> 6 \<and> (1 \<le> n \<and> n \<le> 4 \<or> - 4 \<le> n \<and> n \<le> - 1)"
| "well_formed (EveryNDays interval_days h mi tz s) \<longleftrightarrow> valid_time h mi s \<and> 1 \<le> interval_days"
| "well_formed (BusinessDayOfMonth n h mi tz s) \<longleftrightarrow>
     valid_time h mi s \<and> (1 \<le> n \<and> n \<le> 20 \<or> - 20 \<le> n \<and> n \<le> - 1)"
| "well_formed (MonthlyLastDayExceptWeekend h mi tz s) \<longleftrightarrow> valid_time h mi s"
| "well_formed (CronTimetable cron tz) \<longleftrightarrow> False"
| "well_formed (EveryNInterval interval_minutes interval_hours tz) \<longleftrightarrow>
     interval_hours * 60 + interval_minutes \<noteq> 0"

text \<open>
  The two configuration errors that the specification names: a total interval of 0 for
  \<^verbatim>\<open>EveryNInterval\<close>, and an ordinal \<^verbatim>\<open>n\<close> of 0 for the three variants that count
  occurrences from either end.
\<close>

fun configuration_error :: "timetable \<Rightarrow> bool" where
  "configuration_error (EveryNInterval interval_minutes interval_hours tz) \<longleftrightarrow>
     interval_hours * 60 + interval_minutes = 0"
| "configuration_error (MonthlyWeekdayOccurrence wd n h mi tz s) \<longleftrightarrow> n = 0"
| "configuration_error (YearlyWeekdayOccurrence mo wd n h mi tz s) \<longleftrightarrow> n = 0"
| "configuration_error (BusinessDayOfMonth n h mi tz s) \<longleftrightarrow> n = 0"
| "configuration_error tt \<longleftrightarrow> False"

text \<open>The instants a call receives are instants of the calendar.\<close>

definition valid_request :: "DateTime \<Rightarrow> DataInterval option \<Rightarrow> TimeRestriction \<Rightarrow> bool" where
  "valid_request current_time last_automated_data_interval restriction \<longleftrightarrow>
     valid_datetime current_time
     \<and> (case earliest restriction of Some e \<Rightarrow> valid_datetime e | None \<Rightarrow> True)
     \<and> (case last_automated_data_interval of Some prev \<Rightarrow> valid_datetime (finish prev)
         | None \<Rightarrow> True)"

text \<open>A \<^verbatim>\<open>DateTime\<close> with no microseconds, for writing examples.\<close>

definition DT :: "int \<Rightarrow> int \<Rightarrow> int \<Rightarrow> int \<Rightarrow> int \<Rightarrow> int \<Rightarrow> DateTime" where
  "DT y m d h mi s =
     \<lparr>year = y, month = m, day = d, hour = h, minute = mi, second = s, microsecond = 0\<rparr>"

text \<open>An evaluator for examples in which no \<^verbatim>\<open>CronTimetable\<close> occurs.\<close>

definition no_cron :: cron_evaluator where
  "no_cron = \<lparr>cron_manual = (\<lambda>cron tz t. Raise TypeError),
              cron_next = (\<lambda>cron tz now prev r. Raise TypeError)\<rparr>"

section \<open>The calendar\<close>

text \<open>
  Stepping a day forward or back moves the day number by one and keeps the date valid;
  so adding days, seconds and minutes moves the instant by exactly that much.
\<close>

lemma div_step:
  fixes y k :: int
  assumes "0 < k"
  shows "y div k = (y - 1) div k + (if y mod k = 0 then 1 else 0)"
proof (cases "y mod k = 0")
  case True
  have "y = k * (y div k) + y mod k" by simp
  with True have "y - 1 = k * (y div k - 1) + (k - 1)" by (simp add: algebra_simps)
  then have "(y - 1) div k = y div k - 1"
    by (rule int_div_pos_eq) (insert assms, simp_all)
  with True show ?thesis by simp
next
  case False
  have "0 \<le> y mod k" "y mod k < k" using assms by simp_all
  with False have r: "0 \<le> y mod k - 1" "y mod k - 1 < k" by simp_all
  have "y = k * (y div k) + y mod k" by simp
  then have "y - 1 = k * (y div k) + (y mod k - 1)" by simp
  then have "(y - 1) div k = y div k"
    using r by (rule int_div_pos_eq)
  with False show ?thesis by simp
qed

lemma mod_400_100: "(y::int) mod 400 = 0 \<Longrightarrow> y mod 100 = 0"
proof -
  assume "y mod 400 = 0"
  have "(100::int) dvd 400" by simp
  then have "y mod 400 mod 100 = y mod 100" by (rule mod_mod_cancel)
  with \<open>y mod 400 = 0\<close> show ?thesis by simp
qed

lemma mod_100_4: "(y::int) mod 100 = 0 \<Longrightarrow> y mod 4 = 0"
proof -
  assume "y mod 100 = 0"
  have "(4::int) dvd 100" by simp
  then have "y mod 100 mod 4 = y mod 4" by (rule mod_mod_cancel)
  with \<open>y mod 100 = 0\<close> show ?thesis by simp
qed

lemma days_before_year_Suc:
  "days_before_year (y + 1) = days_before_year y + (if is_leap y then 366 else 365)"
proof -
  define a b c where "a = (y - 1) div 4" and "b = (y - 1) div 100" and "c = (y - 1) div 400"
  define p q r where "p \<longleftrightarrow> y mod 4 = 0" and "q \<longleftrightarrow> y mod 100 = 0" and "r \<longleftrightarrow> y mod 400 = 0"
  have A: "y div 4 = a + (if p then 1 else 0)"
    unfolding a_def p_def by (rule div_step) simp
  have B: "y div 100 = b + (if q then 1 else 0)"
    unfolding b_def q_def by (rule div_step) simp
  have C: "y div 400 = c + (if r then 1 else 0)"
    unfolding c_def r_def by (rule div_step) simp
  have rq: "r \<Longrightarrow> q" unfolding r_def q_def by (rule mod_400_100)
  have qp: "q \<Longrightarrow> p" unfolding q_def p_def by (rule mod_100_4)
  have "y + 1 - 1 = y" by simp
  then have next_year: "days_before_year (y + 1) =
      365 * y + (a + (if p then 1 else 0)) - (b + (if q then 1 else 0)) + (c + (if r then 1 else 0))"
    by (simp only: days_before_year_def A B C)
  have this_year: "days_before_year y = 365 * (y - 1) + a - b + c"
    by (simp only: days_before_year_def a_def b_def c_def)
  have leap: "is_leap y \<longleftrightarrow> p \<and> (\<not> q \<or> r)"
    by (simp only: is_leap_def p_def q_def r_def)
  show ?thesis
    unfolding next_year this_year leap using rq qp
    by (cases p; cases q; cases r) simp_all
qed

lemma month_cases:
  "1 \<le> (m::int) \<Longrightarrow> m \<le> 12 \<Longrightarrow>
   m = 1 \<or> m = 2 \<or> m = 3 \<or> m = 4 \<or> m = 5 \<or> m = 6 \<or> m = 7 \<or> m = 8 \<or> m = 9 \<or> m = 10 \<or> m = 11 \<or> m = 12"
  by arith

lemma days_before_month_Suc:
  "1 \<le> m \<Longrightarrow> m < 12 \<Longrightarrow> days_before_month y (m + 1) = days_before_month y m + days_in_month y m"
  using month_cases [of m]
  by (auto simp: days_before_month_def days_in_month_def)

lemma days_before_month_12:
  "days_before_month y 12 + 31 = (if is_leap y then 366 else 365)"
  by (simp add: days_before_month_def)

lemma days_in_month_bounds: "28 \<le> days_in_month y m" "days_in_month y m \<le> 31"
  by (simp_all add: days_in_month_def)

lemma ordinal_next_day:
  assumes "valid_date (year t) (month t) (day t)"
  shows "ordinal (next_day t) = ordinal t + 1"
  using assms days_before_month_Suc [of "month t" "year t"] days_before_month_12 [of "year t"]
    days_before_year_Suc [of "year t"]
  by (auto simp: ordinal_def next_day_def to_ordinal_def valid_date_def days_before_month_def [of _ 1] days_in_month_def [of _ 12] split: if_splits)

lemma valid_next_day:
  assumes "valid_date (year t) (month t) (day t)"
  shows "valid_date (year (next_day t)) (month (next_day t)) (day (next_day t))"
  using assms days_in_month_bounds [of "year t" "month t + 1"] days_in_month_bounds [of "year t + 1" 1]
  by (auto simp: next_day_def valid_date_def)

lemma ordinal_prev_day:
  assumes "valid_date (year t) (month t) (day t)"
  shows "ordinal (prev_day t) = ordinal t - 1"
  using assms days_before_month_Suc [of "month t - 1" "year t"] days_before_month_12 [of "year t - 1"]
    days_before_year_Suc [of "year t - 1"]
  by (auto simp: ordinal_def prev_day_def to_ordinal_def valid_date_def days_before_month_def [of _ 1] split: if_splits)

lemma valid_prev_day:
  assumes "valid_date (year t) (month t) (day t)"
  shows "valid_date (year (prev_day t)) (month (prev_day t)) (day (prev_day t))"
  using assms days_in_month_bounds [of "year t" "month t - 1"]
  by (auto simp: prev_day_def valid_date_def days_in_month_def [of _ 12])

lemma time_next_day [simp]:
  "hour (next_day t) = hour t" "minute (next_day t) = minute t" "second (next_day t) = second t"
  "microsecond (next_day t) = microsecond t"
  by (simp_all add: next_day_def)

lemma time_prev_day [simp]:
  "hour (prev_day t) = hour t" "minute (prev_day t) = minute t" "second (prev_day t) = second t"
  "microsecond (prev_day t) = microsecond t"
  by (simp_all add: prev_day_def)

lemma funpow_next_day:
  assumes "valid_date (year t) (month t) (day t)"
  shows "ordinal ((next_day ^^ k) t) = ordinal t + int k
       \<and> valid_date (year ((next_day ^^ k) t)) (month ((next_day ^^ k) t)) (day ((next_day ^^ k) t))
       \<and> hour ((next_day ^^ k) t) = hour t \<and> minute ((next_day ^^ k) t) = minute t
       \<and> second ((next_day ^^ k) t) = second t \<and> microsecond ((next_day ^^ k) t) = microsecond t"
proof (induction k)
  case 0
  with assms show ?case by simp
next
  case (Suc k)
  then show ?case by (simp add: ordinal_next_day valid_next_day)
qed

lemma funpow_prev_day:
  assumes "valid_date (year t) (month t) (day t)"
  shows "ordinal ((prev_day ^^ k) t) = ordinal t - int k
       \<and> valid_date (year ((prev_day ^^ k) t)) (month ((prev_day ^^ k) t)) (day ((prev_day ^^ k) t))
       \<and> hour ((prev_day ^^ k) t) = hour t \<and> minute ((prev_day ^^ k) t) = minute t
       \<and> second ((prev_day ^^ k) t) = second t \<and> microsecond ((prev_day ^^ k) t) = microsecond t"
proof (induction k)
  case 0
  with assms show ?case by simp
next
  case (Suc k)
  then show ?case by (simp add: ordinal_prev_day valid_prev_day)
qed

lemma ordinal_add_days:
  "valid_date (year t) (month t) (day t) \<Longrightarrow> ordinal (add_days t k) = ordinal t + k"
  using funpow_next_day [of t "nat k"] funpow_prev_day [of t "nat (- k)"]
  by (simp add: add_days_def)

lemma valid_add_days:
  "valid_date (year t) (month t) (day t) \<Longrightarrow>
   valid_date (year (add_days t k)) (month (add_days t k)) (day (add_days t k))"
  using funpow_next_day [of t "nat k"] funpow_prev_day [of t "nat (- k)"]
  by (simp add: add_days_def)

lemma time_add_days:
  "valid_date (year t) (month t) (day t) \<Longrightarrow>
   hour (add_days t k) = hour t \<and> minute (add_days t k) = minute t
   \<and> second (add_days t k) = second t \<and> microsecond (add_days t k) = microsecond t"
  using funpow_next_day [of t "nat k"] funpow_prev_day [of t "nat (- k)"]
  by (simp add: add_days_def)

lemma instant_add_days:
  "valid_date (year t) (month t) (day t) \<Longrightarrow> instant (add_days t k) = instant t + k * 86400000000"
  by (simp add: instant_def ordinal_add_days time_add_days algebra_simps)

lemma div_mod_split:
  fixes a b :: int
  assumes "0 < b"
  shows "a = a div b * b + a mod b \<and> 0 \<le> a mod b \<and> a mod b < b"
  using assms by simp

lemma time_of_day_split:
  fixes r :: int
  assumes "0 \<le> r" "r < 86400"
  shows "((r div 3600) * 60 + (r mod 3600) div 60) * 60 + r mod 60 = r"
    and "0 \<le> r div 3600" and "r div 3600 < 24"
    and "0 \<le> (r mod 3600) div 60" and "(r mod 3600) div 60 < 60"
    and "0 \<le> r mod 60" and "r mod 60 < 60"
proof -
  define A B C D where "A = r div 3600" and "B = r mod 3600" and "C = B div 60" and "D = B mod 60"
  have r: "r = A * 3600 + B \<and> 0 \<le> B \<and> B < 3600"
    unfolding A_def B_def by (rule div_mod_split) simp
  have b: "B = C * 60 + D \<and> 0 \<le> D \<and> D < 60"
    unfolding C_def D_def by (rule div_mod_split) simp
  have "(60::int) dvd 3600" by simp
  then have "r mod 3600 mod 60 = r mod 60" by (rule mod_mod_cancel)
  then have d: "r mod 60 = D" by (simp only: D_def B_def)
  have eq: "(A * 60 + C) * 60 + D = r" using r b by (simp add: algebra_simps)
  have A: "0 \<le> A" "A < 24" using r assms by auto
  have C: "0 \<le> C" "C < 60" using r b by auto
  show "((r div 3600) * 60 + (r mod 3600) div 60) * 60 + r mod 60 = r"
    using eq unfolding d unfolding A_def C_def B_def .
  show "0 \<le> r div 3600" "r div 3600 < 24" using A unfolding A_def .
  show "0 \<le> (r mod 3600) div 60" "(r mod 3600) div 60 < 60" using C unfolding C_def B_def .
  show "0 \<le> r mod 60" "r mod 60 < 60" using b unfolding d by simp_all
qed

lemma add_seconds_fields:
  assumes "valid_date (year t) (month t) (day t)"
  shows "ordinal (add_seconds t k) = ordinal t + ((hour t * 60 + minute t) * 60 + second t + k) div 86400"
    and "hour (add_seconds t k) = ((hour t * 60 + minute t) * 60 + second t + k) mod 86400 div 3600"
    and "minute (add_seconds t k)
           = ((hour t * 60 + minute t) * 60 + second t + k) mod 86400 mod 3600 div 60"
    and "second (add_seconds t k) = ((hour t * 60 + minute t) * 60 + second t + k) mod 86400 mod 60"
    and "microsecond (add_seconds t k) = microsecond t"
    and "valid_date (year (add_seconds t k)) (month (add_seconds t k)) (day (add_seconds t k))"
  using assms
    ordinal_add_days [of t "((hour t * 60 + minute t) * 60 + second t + k) div 86400"]
    valid_add_days [of t "((hour t * 60 + minute t) * 60 + second t + k) div 86400"]
    time_add_days [of t "((hour t * 60 + minute t) * 60 + second t + k) div 86400"]
  by (simp_all add: add_seconds_def Let_def ordinal_def)

lemma instant_add_seconds:
  assumes "valid_date (year t) (month t) (day t)"
  shows "instant (add_seconds t k) = instant t + k * 1000000"
proof -
  define total where "total = (hour t * 60 + minute t) * 60 + second t + k"
  define q r where "q = total div 86400" and "r = total mod 86400"
  define A C D where "A = r div 3600" and "C = r mod 3600 div 60" and "D = r mod 60"
  have r: "total = q * 86400 + r \<and> 0 \<le> r \<and> r < 86400"
    unfolding q_def r_def by (rule div_mod_split) simp
  then have tod: "(A * 60 + C) * 60 + D = r"
    unfolding A_def C_def D_def by (intro time_of_day_split(1)) simp_all
  have "instant (add_seconds t k) = ((((ordinal t + q) * 24 + A) * 60 + C) * 60 + D) * 1000000 + microsecond t"
    unfolding instant_def add_seconds_fields [OF assms] A_def C_def D_def r_def q_def total_def ..
  also have "\<dots> = (ordinal t * 86400 + (q * 86400 + ((A * 60 + C) * 60 + D))) * 1000000 + microsecond t"
    by (simp add: algebra_simps)
  also have "\<dots> = (ordinal t * 86400 + total) * 1000000 + microsecond t"
    using r tod by simp
  also have "\<dots> = instant t + k * 1000000"
    by (simp add: instant_def total_def algebra_simps)
  finally show ?thesis .
qed

lemma valid_add_seconds:
  assumes "valid_datetime t"
  shows "valid_datetime (add_seconds t k)"
proof -
  define total where "total = (hour t * 60 + minute t) * 60 + second t + k"
  define r where "r = total mod 86400"
  have vd: "valid_date (year t) (month t) (day t)"
    using assms by (simp add: valid_datetime_def)
  have r: "0 \<le> r" "r < 86400"
    unfolding r_def by simp_all
  have "valid_time (r div 3600) (r mod 3600 div 60) (r mod 60)"
    unfolding valid_time_def using time_of_day_split(2-7) [OF r] by blast
  then have "valid_time (hour (add_seconds t k)) (minute (add_seconds t k)) (second (add_seconds t k))"
    unfolding add_seconds_fields [OF vd] r_def total_def .
  moreover have "0 \<le> microsecond t \<and> microsecond t < 1000000"
    using assms by (simp add: valid_datetime_def)
  ultimately show ?thesis
    unfolding valid_datetime_def using add_seconds_fields(5,6) [OF vd, of k] by simp
qed

section \<open>Results of the searches\<close>

lemma bind_Return_iff:
  "bind x f = Return y \<longleftrightarrow> (\<exists>v. x = Return v \<and> f v = Return y)"
  by (cases x) auto

lemma scan_forward_holds:
  "scan_forward fuel q n dt c = Return d \<Longrightarrow> q d"
  by (induction fuel arbitrary: dt c) (auto simp: bind_Return_iff split: if_splits)

lemma scan_backward_holds:
  "scan_backward fuel q n dt c = Return d \<Longrightarrow> q d"
  by (induction fuel arbitrary: dt c) (auto simp: bind_Return_iff split: if_splits)

lemma skip_weekend_holds:
  "skip_weekend fuel dt = Return d \<Longrightarrow> day_of_week d \<le> 4"
  by (induction fuel arbitrary: dt) (auto simp: bind_Return_iff split: if_splits)

lemma day_of_week_replace_time:
  "replace_time d h mi s = Return d' \<Longrightarrow> day_of_week d' = day_of_week d"
  by (auto simp: replace_time_def day_of_week_def ordinal_def split: if_splits)

lemma nth_day_holds:
  assumes "nth_day fuel (\<lambda>dt. P (day_of_week dt)) n h mi s y m = Return d"
  shows "P (day_of_week d)"
proof (cases "n > 0")
  case True
  with assms obtain a b where "scan_forward fuel (\<lambda>dt. P (day_of_week dt)) n a 0 = Return b"
    "replace_time b h mi s = Return d"
    by (auto simp: nth_day_def bind_Return_iff)
  then show ?thesis
    using scan_forward_holds [of fuel "\<lambda>dt. P (day_of_week dt)" n a 0 b] day_of_week_replace_time [of b h mi s d]
    by simp
next
  case False
  with assms obtain a b where "scan_backward fuel (\<lambda>dt. P (day_of_week dt)) n a (- 1) = Return b"
    "replace_time b h mi s = Return d"
    by (auto simp: nth_day_def bind_Return_iff)
  then show ?thesis
    using scan_backward_holds [of fuel "\<lambda>dt. P (day_of_week dt)" n a "- 1" b] day_of_week_replace_time [of b h mi s d]
    by simp
qed

lemma search_forward_range:
  "search_forward fuel occ adv after p = Return d \<Longrightarrow> \<exists>p'. occ p' = Return d"
  by (induction fuel arbitrary: p) (auto split: outcome.splits if_splits)

lemma covering_range:
  "covering occ back p t = Return iv \<Longrightarrow> \<exists>p'. occ p' = Return (start iv)"
  by (auto simp: covering_def bind_Return_iff hour_interval_def split: if_splits)

lemma business_day_weekday:
  "BusinessDayOfMonth_get_nth_business_day df n h mi s p = Return d \<Longrightarrow> day_of_week d < 5"
  using nth_day_holds [of df "\<lambda>w. w < 5" n h mi s "fst p" "snd p" d]
  by (simp add: BusinessDayOfMonth_get_nth_business_day_def split: prod.splits)

lemma except_weekend_weekday:
  "MonthlyLastDayExceptWeekend_get_last_day df h mi s p = Return d \<Longrightarrow> day_of_week d \<le> 4"
  by (auto simp: MonthlyLastDayExceptWeekend_get_last_day_def bind_Return_iff split: prod.splits
      dest!: skip_weekend_holds day_of_week_replace_time)

lemma day_of_week_range: "0 \<le> day_of_week d \<and> day_of_week d \<le> 6"
  by (simp add: day_of_week_def)

section \<open>The midnight-anchored grid\<close>

lemma instant_midnight: "instant (midnight t) = ordinal t * 86400000000"
  by (simp add: instant_def midnight_def ordinal_def)

lemma time_of_day_bounds:
  assumes "valid_datetime t"
  shows "0 \<le> instant t - instant (midnight t)" "instant t - instant (midnight t) < 86400000000"
  using assms unfolding instant_midnight
  by (auto simp: instant_def valid_datetime_def valid_time_def)

lemma valid_datetime_midnight: "valid_datetime t \<Longrightarrow> valid_datetime (midnight t)"
  by (simp add: valid_datetime_def midnight_def valid_time_def)

lemma instant_add_minutes:
  "valid_date (year t) (month t) (day t) \<Longrightarrow> instant (add_minutes t k) = instant t + k * 60000000"
  by (simp add: add_minutes_def instant_add_seconds)

lemma valid_add_minutes: "valid_datetime t \<Longrightarrow> valid_datetime (add_minutes t k)"
  by (simp add: add_minutes_def valid_add_seconds)

lemma valid_grid_floor: "valid_datetime t \<Longrightarrow> valid_datetime (grid_floor T t)"
  by (simp add: grid_floor_def Let_def valid_add_minutes valid_datetime_midnight)

text \<open>
  With \<open>m\<close> the whole minutes since midnight and \<open>j = m div T\<close>: the grid point \<open>j * T\<close>
  minutes after midnight is not after \<open>t\<close>, and the next one is.
\<close>

lemma grid_floor_facts:
  assumes "valid_datetime t" "0 < T"
  shows "\<exists>j. 0 \<le> j
     \<and> instant (grid_floor T t) = instant (midnight t) + j * (T * 60000000)
     \<and> instant (grid_floor T t) \<le> instant t
     \<and> instant t < instant (grid_floor T t) + T * 60000000"
proof -
  define u where "u = instant t - instant (midnight t)"
  define m where "m = u div 60000000"
  define e where "e = u mod 60000000"
  define j where "j = m div T"
  define w where "w = j * T"
  define f where "f = m mod T"
  have u0: "0 \<le> u" using time_of_day_bounds(1) [OF assms(1)] by (simp add: u_def)
  have um: "u = m * 60000000 + e \<and> 0 \<le> e \<and> e < 60000000"
    unfolding m_def e_def by (rule div_mod_split) simp
  have mj: "m = w + f \<and> 0 \<le> f \<and> f < T"
    unfolding w_def j_def f_def by (rule div_mod_split) (rule assms(2))
  have m0: "0 \<le> m" using u0 unfolding m_def by (simp add: pos_imp_zdiv_nonneg_iff)
  have j0: "0 \<le> j" using m0 assms(2) unfolding j_def by (simp add: pos_imp_zdiv_nonneg_iff)
  have vm: "valid_date (year (midnight t)) (month (midnight t)) (day (midnight t))"
    using valid_datetime_midnight [OF assms(1)] by (simp add: valid_datetime_def)
  have "grid_floor T t = add_minutes (midnight t) w"
    unfolding grid_floor_def Let_def w_def j_def m_def u_def ..
  then have gi: "instant (grid_floor T t) = instant (midnight t) + w * 60000000"
    using vm by (simp add: instant_add_minutes)
  have le: "w * 60000000 \<le> u" using um mj by auto
  have "m + 1 \<le> w + T" using mj by auto
  then have "(m + 1) * 60000000 \<le> (w + T) * 60000000" by simp
  moreover have "u < (m + 1) * 60000000" using um by auto
  ultimately have gt: "u < w * 60000000 + T * 60000000" by (simp add: algebra_simps)
  have "instant (grid_floor T t) = instant (midnight t) + j * (T * 60000000)"
    using gi by (simp add: w_def)
  moreover have "instant (grid_floor T t) \<le> instant t"
    using gi le by (simp add: u_def)
  moreover have "instant t < instant (grid_floor T t) + T * 60000000"
    using gi gt by (simp add: u_def)
  ultimately show ?thesis using j0 by blast
qed

lemma valid_baseline_of:
  "valid_request now prev restriction \<Longrightarrow> valid_datetime (baseline_of now restriction)"
  by (auto simp: valid_request_def baseline_of_def dt_max_def Let_def split: option.splits)

section \<open>The order of dates\<close>

lemma days_before_year_mono:
  assumes "a \<le> b"
  shows "days_before_year a \<le> days_before_year b"
  using assms
proof (induction b rule: int_ge_induct)
  case base
  show ?case by simp
next
  case (step i)
  then show ?case using days_before_year_Suc [of i] by (simp split: if_splits)
qed

lemma days_before_month_mono:
  assumes "1 \<le> m" "m < m'" "m' \<le> 12"
  shows "days_before_month y m + days_in_month y m \<le> days_before_month y m'"
proof -
  have step: "days_before_month y k + days_in_month y k \<le> days_before_month y (k + 1)"
    if "1 \<le> k" "k < 12" for k
    using that by (simp add: days_before_month_Suc)
  have grow: "days_before_month y (m + 1) \<le> days_before_month y i" if "m + 1 \<le> i" "i \<le> 12" for i
    using that
  proof (induction i rule: int_ge_induct)
    case base
    show ?case by simp
  next
    case (step i)
    have "days_before_month y (i + 1) = days_before_month y i + days_in_month y i"
      using step assms(1) by (intro days_before_month_Suc) simp_all
    moreover have "0 \<le> days_in_month y i" using days_in_month_bounds(1) [of y i] by simp
    ultimately show ?case using step by simp
  qed
  have "days_before_month y m + days_in_month y m \<le> days_before_month y (m + 1)"
    using assms by (intro step) simp_all
  also have "\<dots> \<le> days_before_month y m'" using assms by (intro grow) simp_all
  finally show ?thesis .
qed

lemma days_before_month_nonneg: "1 \<le> m \<Longrightarrow> m \<le> 12 \<Longrightarrow> 0 \<le> days_before_month y m"
  using month_cases [of m] by (auto simp: days_before_month_def)

lemma day_of_year_le:
  assumes "valid_date y m d"
  shows "days_before_month y m + d \<le> (if is_leap y then 366 else 365)"
proof (cases "m = 12")
  case True
  with assms show ?thesis
    using days_before_month_12 [of y] by (simp add: valid_date_def days_in_month_def)
next
  case False
  with assms have "days_before_month y m + days_in_month y m \<le> days_before_month y 12"
    by (intro days_before_month_mono) (simp_all add: valid_date_def)
  with assms show ?thesis
    using days_before_month_12 [of y] by (simp add: valid_date_def split: if_splits)
qed

lemma to_ordinal_month_less:
  assumes a: "valid_date y m d" and b: "valid_date y' m' d'"
    and less: "y < y' \<or> (y = y' \<and> m < m')"
  shows "to_ordinal y m d < to_ordinal y' m' d'"
proof (cases "y < y'")
  case True
  have "to_ordinal y m d \<le> days_before_year y + (if is_leap y then 366 else 365)"
    using day_of_year_le [OF a] by (simp add: to_ordinal_def)
  also have "\<dots> = days_before_year (y + 1)" by (simp add: days_before_year_Suc)
  also have "\<dots> \<le> days_before_year y'" using True by (intro days_before_year_mono) simp
  also have "\<dots> < to_ordinal y' m' d'"
    using b days_before_month_nonneg [of m' y'] by (simp add: to_ordinal_def valid_date_def)
  finally show ?thesis .
next
  case False
  with less have eq: "y = y'" and m: "m < m'" by simp_all
  have "days_before_month y m + days_in_month y m \<le> days_before_month y m'"
    using a b m by (intro days_before_month_mono) (simp_all add: valid_date_def)
  with a b show ?thesis by (simp add: to_ordinal_def valid_date_def eq)
qed

lemma instant_bounds:
  assumes "valid_datetime t"
  shows "ordinal t * 86400000000 \<le> instant t" "instant t < (ordinal t + 1) * 86400000000"
  using time_of_day_bounds [OF assms] by (simp_all add: instant_midnight)

lemma instant_less_by_day:
  assumes "valid_datetime a" "valid_datetime b" "ordinal a < ordinal b"
  shows "instant a < instant b"
proof -
  have "instant a < (ordinal a + 1) * 86400000000" by (rule instant_bounds(2) [OF assms(1)])
  also have "\<dots> \<le> ordinal b * 86400000000" using assms(3) by simp
  also have "\<dots> \<le> instant b" by (rule instant_bounds(1) [OF assms(2)])
  finally show ?thesis .
qed

text \<open>An instant of a later month is a later instant.\<close>

lemma instant_less_by_month:
  assumes "valid_datetime a" "valid_datetime b"
    and "year a < year b \<or> (year a = year b \<and> month a < month b)"
  shows "instant a < instant b"
  using assms to_ordinal_month_less [of "year a" "month a" "day a" "year b" "month b" "day b"]
  by (intro instant_less_by_day) (simp_all add: ordinal_def valid_datetime_def)

section \<open>The first day of the calendar\<close>

lemma to_ordinal_pos:
  assumes "valid_date y m d" "1 \<le> y"
  shows "1 \<le> to_ordinal y m d"
proof -
  have "days_before_year 1 \<le> days_before_year y" using assms(2) by (rule days_before_year_mono)
  moreover have "days_before_year 1 = 0" by (simp add: days_before_year_def)
  moreover have "0 \<le> days_before_month y m"
    using assms(1) by (intro days_before_month_nonneg) (simp_all add: valid_date_def)
  ultimately show ?thesis using assms(1) by (simp add: to_ordinal_def valid_date_def)
qed

text \<open>
  With the ordinal 0 the backward scan looks for a count that is never reached: the count
  starts at -1 and only decreases. The scan steps back one day at a time until the step
  from 0001-01-01 raises.
\<close>

lemma scan_backward_zero:
  "c < 0 \<Longrightarrow> valid_date (year dt) (month dt) (day dt) \<Longrightarrow> 1 \<le> year dt \<Longrightarrow>
   ordinal dt \<le> int fuel \<Longrightarrow> scan_backward fuel q 0 dt c = Raise OverflowError"
proof (induction fuel arbitrary: dt c)
  case 0
  then show ?case
    using to_ordinal_pos [of "year dt" "month dt" "day dt"] by (simp add: ordinal_def)
next
  case (Suc fuel)
  have step: "bind (subtract_day dt) (\<lambda>dt'. scan_backward fuel q 0 dt' c') = Raise OverflowError"
    if "c' < 0" for c'
  proof (cases "year (prev_day dt) < 1")
    case True
    then show ?thesis by (simp add: subtract_day_def)
  next
    case False
    have "scan_backward fuel q 0 (prev_day dt) c' = Raise OverflowError"
      using Suc.prems False that valid_prev_day [of dt] ordinal_prev_day [of dt]
      by (intro Suc.IH) simp_all
    with False show ?thesis by (simp add: subtract_day_def)
  qed
  show ?case using Suc.prems(1) step [of c] step [of "c - 1"] by simp
qed

lemma first_of_next_month_facts:
  assumes "first_of_next_month y m = Return d"
  shows "valid_date (year d) (month d) (day d)" "1 \<le> year d"
    "ordinal d \<le> days_before_year (y + 1) + 1"
proof -
  show "valid_date (year d) (month d) (day d)" "1 \<le> year d"
    using assms by (auto simp: first_of_next_month_def datetime_def split: if_splits)
  show "ordinal d \<le> days_before_year (y + 1) + 1"
  proof (cases "m = 12")
    case True
    with assms show ?thesis
      by (auto simp: first_of_next_month_def datetime_def ordinal_def to_ordinal_def
          days_before_month_def split: if_splits)
  next
    case False
    with assms have v: "valid_date y (m + 1) 1" and d: "ordinal d = to_ordinal y (m + 1) 1"
      by (auto simp: first_of_next_month_def datetime_def ordinal_def split: if_splits)
    from day_of_year_le [OF v] days_before_year_Suc [of y] d show ?thesis
      by (simp add: to_ordinal_def split: if_splits)
  qed
qed

lemma first_of_next_month_no_loop: "first_of_next_month y m \<noteq> OutOfFuel"
  by (simp add: first_of_next_month_def datetime_def)

lemma nth_day_zero:
  assumes "days_before_year (y + 1) \<le> int fuel"
  shows "\<exists>e. nth_day fuel q 0 h mi s y m = Raise e"
proof (cases "first_of_next_month y m")
  case (Return d)
  note facts = first_of_next_month_facts [OF Return]
  show ?thesis
  proof (cases "year (prev_day d) < 1")
    case True
    with Return show ?thesis by (simp add: nth_day_def subtract_day_def)
  next
    case False
    have "scan_backward fuel q 0 (prev_day d) (- 1) = Raise OverflowError"
      using facts False assms valid_prev_day [of d] ordinal_prev_day [of d]
      by (intro scan_backward_zero) simp_all
    with Return False show ?thesis by (simp add: nth_day_def subtract_day_def)
  qed
next
  case (Raise e)
  then show ?thesis by (simp add: nth_day_def)
next
  case OutOfFuel
  then show ?thesis using first_of_next_month_no_loop [of y m] by simp
qed

lemma covering_raises: "occ p = Raise e \<Longrightarrow> covering occ back p t = Raise e"
  by (simp add: covering_def)

lemma search_forward_raises:
  "0 < fuel \<Longrightarrow> occ p = Raise e \<Longrightarrow> search_forward fuel occ adv after p = Raise e"
  by (cases fuel) simp_all

text \<open>The seven methods that read the clock through \<^verbatim>\<open>datetime.now\<close> raise at that line.\<close>

lemma clock_read_raises:
  "WeeklyOnDay_next_dagrun_info wd h mi s clock prev r = Raise AttributeError"
  "BiweeklyOnDay_next_dagrun_info wd h mi s anchor_date clock prev r = Raise AttributeError"
  "SemiMonthly_next_dagrun_info h mi s clock prev r = Raise AttributeError"
  "MonthlyWeekdayOccurrence_next_dagrun_info pf df wd n h mi s clock prev r = Raise AttributeError"
  "EveryNDays_next_dagrun_info interval_days h mi s clock prev r = Raise AttributeError"
  "BusinessDayOfMonth_next_dagrun_info pf df n h mi s clock prev r = Raise AttributeError"
  "MonthlyLastDayExceptWeekend_next_dagrun_info pf df h mi s clock prev r = Raise AttributeError"
  by (simp_all add: WeeklyOnDay_next_dagrun_info_def BiweeklyOnDay_next_dagrun_info_def
      SemiMonthly_next_dagrun_info_def MonthlyWeekdayOccurrence_next_dagrun_info_def
      EveryNDays_next_dagrun_info_def BusinessDayOfMonth_next_dagrun_info_def
      MonthlyLastDayExceptWeekend_next_dagrun_info_def datetime_now_def)

section \<open>The claims\<close>

subsection \<open>Manual intervals (C1)\<close>

text \<open>
  Claim C1 says that the manual-interval operation of every variant returns the interval
  whose start is the latest occurrence at or before the reference instant, never a later
  one. The code does so where it steps back one period, as \<^verbatim>\<open>MonthlyLastDay\<close> does: for
  18:30 and the reference 2024-02-10 it returns 2024-01-31 18:30. \<^verbatim>\<open>WeeklyOnDay\<close> and
  \<^verbatim>\<open>MonthlyMultipleDays\<close> call their next-occurrence search instead. For Mondays at 00:00
  and the reference Tuesday 2024-01-02 the start is Monday 2024-01-08, later than the
  reference, although Monday 2024-01-01 00:00 is an occurrence before it; for the days 1
  and 15 at 08:00 and the reference 2024-01-10 the start is 2024-01-15 08:00.
\<close>

theorem C1_manual_interval_after_reference:
  "MonthlyLastDay_infer_manual_data_interval 18 30 0 (DT 2024 2 10 0 0 0)
     = Return (hour_interval (DT 2024 1 31 18 30 0))
   \<and> WeeklyOnDay_infer_manual_data_interval 0 0 0 0 (DT 2024 1 2 0 0 0)
     = Return (hour_interval (DT 2024 1 8 0 0 0))
   \<and> dt_lt (DT 2024 1 2 0 0 0) (DT 2024 1 8 0 0 0)
   \<and> WeeklyOnDay_get_next_weekday 0 0 0 0 (DT 2023 12 31 0 0 0) = Return (DT 2024 1 1 0 0 0)
   \<and> dt_le (DT 2024 1 1 0 0 0) (DT 2024 1 2 0 0 0)
   \<and> MonthlyMultipleDays_infer_manual_data_interval 2 [1, 15] 8 0 0 (DT 2024 1 10 0 0 0)
     = Return (hour_interval (DT 2024 1 15 8 0 0))
   \<and> dt_lt (DT 2024 1 10 0 0 0) (DT 2024 1 15 8 0 0)"
  by code_simp

subsection \<open>The upper bound of the restriction (C2)\<close>

text \<open>
  Claim C2 says that the next-run operation of every variant returns no further run when
  \<^verbatim>\<open>restriction.latest\<close> is set and the start found is after it, and names the scenario of
  \<^verbatim>\<open>WeeklyOnDay\<close> with latest 2024-01-01 00:00 and a baseline after 2024-01-02.
  \<^verbatim>\<open>MonthlyLastDay\<close> does return \<^verbatim>\<open>None\<close> there. \<^verbatim>\<open>WeeklyOnDay.next_dagrun_info\<close> returns
  nothing: it raises \<^verbatim>\<open>AttributeError\<close> when it reads the clock (line 853), before it looks
  at the restriction.
\<close>

theorem C2_weekly_raises_instead_of_none:
  "MonthlyLastDay_next_dagrun_info 2 0 0 0 (DT 2024 1 3 0 0 0) None
       \<lparr>earliest = None, latest = Some (DT 2024 1 1 0 0 0), catchup = False\<rparr>
     = Return None
   \<and> WeeklyOnDay_next_dagrun_info 0 0 0 0 (DT 2024 1 3 0 0 0) None
       \<lparr>earliest = None, latest = Some (DT 2024 1 1 0 0 0), catchup = False\<rparr>
     = Raise AttributeError"
  by code_simp

subsection \<open>No past occurrence (C3)\<close>

text \<open>
  Claim C3 says that the occurrence found when searching from an instant is never before
  that instant. \<^verbatim>\<open>WeeklyOnDay._get_next_weekday\<close>, the search of that variant, moves to the
  following week only when the hour and the minute of the search instant are each at
  least the configured ones (line 843); it compares them one by one instead of comparing
  the time of day. For Mondays at 09:30 and a search from Monday 2024-01-01 10:05 (hour
  10 \<ge> 9, but minute 5 < 30) it returns 09:30 of the same day, 35 minutes in the past.
  \<^verbatim>\<open>infer_manual_data_interval\<close> hands that occurrence on as the start of its interval;
  \<^verbatim>\<open>next_dagrun_info\<close> does not reach the search, because it raises when it reads the clock.
\<close>

theorem C3_weekly_search_returns_past_occurrence:
  "WeeklyOnDay_get_next_weekday 0 9 30 0 (DT 2024 1 1 10 5 0) = Return (DT 2024 1 1 9 30 0)
   \<and> dt_lt (DT 2024 1 1 9 30 0) (DT 2024 1 1 10 5 0)
   \<and> WeeklyOnDay_infer_manual_data_interval 0 9 30 0 (DT 2024 1 1 10 5 0)
     = Return (hour_interval (DT 2024 1 1 9 30 0))
   \<and> WeeklyOnDay_next_dagrun_info 0 9 30 0 (DT 2024 1 1 10 5 0) None
       \<lparr>earliest = Some (DT 2024 1 1 10 5 0), latest = None, catchup = True\<rparr>
     = Raise AttributeError"
  by code_simp

subsection \<open>Catch-up suppression (C7)\<close>

text \<open>
  Claim C7 says that with \<^verbatim>\<open>catchup\<close> false the next-run operation of every variant returns
  an interval whose start is not before the current time. With the clock at 2024-01-10
  12:00, an earliest bound in 2020 and a last interval that ended on 2023-01-15,
  \<^verbatim>\<open>MonthlyLastDay\<close> at 08:00 returns the run of 2024-01-31, after the clock.
  \<^verbatim>\<open>SemiMonthly.next_dagrun_info\<close> returns no interval for these arguments: it raises
  \<^verbatim>\<open>AttributeError\<close> when it reads the clock (line 1042).
\<close>

theorem C7_semi_monthly_returns_no_interval:
  "MonthlyLastDay_next_dagrun_info 2 8 0 0 (DT 2024 1 10 12 0 0)
       (Some \<lparr>start = DT 2023 1 15 8 0 0, finish = DT 2023 1 15 9 0 0\<rparr>)
       \<lparr>earliest = Some (DT 2020 1 1 0 0 0), latest = None, catchup = False\<rparr>
     = Return (Some (hour_interval (DT 2024 1 31 8 0 0)))
   \<and> dt_le (DT 2024 1 10 12 0 0) (DT 2024 1 31 8 0 0)
   \<and> SemiMonthly_next_dagrun_info 8 0 0 (DT 2024 1 10 12 0 0)
       (Some \<lparr>start = DT 2023 1 15 8 0 0, finish = DT 2023 1 15 9 0 0\<rparr>)
       \<lparr>earliest = Some (DT 2020 1 1 0 0 0), latest = None, catchup = False\<rparr>
     = Raise AttributeError"
  by code_simp

subsection \<open>Configuration errors (C5)\<close>

text \<open>
  Claim C5: a total interval of 0 and an ordinal index of 0 are signalled on the first
  evaluation call. No constructor checks either, and every evaluation call on such a
  configuration raises: \<^verbatim>\<open>EveryNInterval\<close> raises \<^verbatim>\<open>ValueError\<close> at its test of the total
  (lines 1549, 1565); with \<^verbatim>\<open>n = 0\<close> nothing tests \<^verbatim>\<open>n\<close>, the backward scan of the days
  never finds its count and raises \<^verbatim>\<open>OverflowError\<close> when it steps below 0001-01-01, or the
  call raises before that (the clock read of \<^verbatim>\<open>MonthlyWeekdayOccurrence\<close> and
  \<^verbatim>\<open>BusinessDayOfMonth\<close>, a month outside 1..12). The scan looks at every day back to the
  first of the calendar, so the budget of day steps has to cover the days up to the end
  of the year searched.
\<close>

theorem C5_configuration_errors_raise:
  assumes "configuration_error r"
    and "0 < pf"
    and "days_before_year (year t + 1) \<le> int df"
    and "days_before_year (year (search_from now prev restriction) + 1) \<le> int df"
  shows "(\<exists>e. infer_manual_data_interval ce pf df r t = Raise e)
       \<and> (\<exists>e. next_dagrun_info ce pf df r now prev restriction = Raise e)"
proof (cases r)
  case (EveryNInterval interval_minutes interval_hours tz)
  with assms(1) show ?thesis
    by (simp add: EveryNInterval_infer_manual_data_interval_def
        EveryNInterval_next_dagrun_info_def)
next
  case (MonthlyWeekdayOccurrence wd n h mi tz s)
  with assms(1) have n: "n = 0" by simp
  obtain e where "MonthlyWeekdayOccurrence_get_nth_weekday df wd 0 h mi s (year t, month t)
      = Raise e"
    using nth_day_zero [OF assms(3), of "\<lambda>dt. day_of_week dt = wd" h mi s "month t"]
    by (auto simp: MonthlyWeekdayOccurrence_get_nth_weekday_def)
  then have "MonthlyWeekdayOccurrence_infer_manual_data_interval df wd 0 h mi s t = Raise e"
    unfolding MonthlyWeekdayOccurrence_infer_manual_data_interval_def by (rule covering_raises)
  with MonthlyWeekdayOccurrence n show ?thesis by (simp add: clock_read_raises)
next
  case (BusinessDayOfMonth n h mi tz s)
  with assms(1) have n: "n = 0" by simp
  obtain e where "BusinessDayOfMonth_get_nth_business_day df 0 h mi s (year t, month t)
      = Raise e"
    using nth_day_zero [OF assms(3), of "\<lambda>dt. day_of_week dt < 5" h mi s "month t"]
    by (auto simp: BusinessDayOfMonth_get_nth_business_day_def)
  then have "BusinessDayOfMonth_infer_manual_data_interval df 0 h mi s t = Raise e"
    unfolding BusinessDayOfMonth_infer_manual_data_interval_def by (rule covering_raises)
  with BusinessDayOfMonth n show ?thesis by (simp add: clock_read_raises)
next
  case (YearlyWeekdayOccurrence mo wd n h mi tz s)
  with assms(1) have n: "n = 0" by simp
  obtain e where "YearlyWeekdayOccurrence_get_nth_weekday df mo wd 0 h mi s (year t) = Raise e"
    using nth_day_zero [OF assms(3), of "\<lambda>dt. day_of_week dt = wd" h mi s mo]
    by (auto simp: YearlyWeekdayOccurrence_get_nth_weekday_def)
  then have manual: "YearlyWeekdayOccurrence_infer_manual_data_interval df mo wd 0 h mi s t
      = Raise e"
    unfolding YearlyWeekdayOccurrence_infer_manual_data_interval_def by (rule covering_raises)
  obtain e' where "YearlyWeekdayOccurrence_get_nth_weekday df mo wd 0 h mi s
      (year (search_from now prev restriction)) = Raise e'"
    using nth_day_zero [OF assms(4), of "\<lambda>dt. day_of_week dt = wd" h mi s mo]
    by (auto simp: YearlyWeekdayOccurrence_get_nth_weekday_def)
  then have "search_forward pf (YearlyWeekdayOccurrence_get_nth_weekday df mo wd 0 h mi s)
      (\<lambda>y. y + 1) (search_from now prev restriction) (year (search_from now prev restriction))
      = Raise e'"
    using assms(2) by (intro search_forward_raises) simp_all
  then have "YearlyWeekdayOccurrence_next_dagrun_info pf df mo wd 0 h mi s now prev restriction
      = Raise e'"
    by (simp add: YearlyWeekdayOccurrence_next_dagrun_info_def Let_def)
  with manual YearlyWeekdayOccurrence n show ?thesis by simp
qed (use assms(1) in simp_all)

text \<open>
  \<^verbatim>\<open>YearlyWeekdayOccurrence(month=11, weekday=3, n=0, hour=9)\<close> in 2024, with a budget of
  800000 day steps; \<^verbatim>\<open>EveryNInterval\<close> with both lengths 0, which raises \<^verbatim>\<open>ValueError\<close>; and
  \<^verbatim>\<open>MonthlyWeekdayOccurrence(weekday=0, n=0, hour=9)\<close> asked in February of the year 1,
  where the scan reaches the first day of the calendar after 59 steps.
\<close>

theorem C5_configuration_errors_raise_witness:
  "configuration_error (YearlyWeekdayOccurrence 11 3 0 9 0 ''UTC'' 0)
   \<and> (0::nat) < 2
   \<and> days_before_year (year (DT 2024 3 10 0 0 0) + 1) \<le> int 800000
   \<and> days_before_year (year (search_from (DT 2024 3 10 0 0 0) None
         \<lparr>earliest = None, latest = None, catchup = True\<rparr>) + 1) \<le> int 800000
   \<and> (\<exists>e. infer_manual_data_interval no_cron 2 800000
           (YearlyWeekdayOccurrence 11 3 0 9 0 ''UTC'' 0) (DT 2024 3 10 0 0 0) = Raise e)
   \<and> (\<exists>e. next_dagrun_info no_cron 2 800000 (YearlyWeekdayOccurrence 11 3 0 9 0 ''UTC'' 0)
           (DT 2024 3 10 0 0 0) None \<lparr>earliest = None, latest = None, catchup = True\<rparr>
         = Raise e)
   \<and> configuration_error (EveryNInterval 0 0 ''UTC'')
   \<and> infer_manual_data_interval no_cron 2 800000 (EveryNInterval 0 0 ''UTC'')
       (DT 2024 3 10 0 0 0) = Raise ValueError
   \<and> next_dagrun_info no_cron 2 800000 (EveryNInterval 0 0 ''UTC'') (DT 2024 3 10 0 0 0) None
       \<lparr>earliest = None, latest = None, catchup = True\<rparr> = Raise ValueError
   \<and> infer_manual_data_interval no_cron 2 400 (MonthlyWeekdayOccurrence 0 0 9 0 ''UTC'' 0)
       (DT 1 2 10 0 0 0) = Raise OverflowError"
proof -
  have cfg: "configuration_error (YearlyWeekdayOccurrence 11 3 0 9 0 ''UTC'' 0)" by simp
  have pf: "(0::nat) < 2" by simp
  have manual_budget: "days_before_year (year (DT 2024 3 10 0 0 0) + 1) \<le> int 800000"
    by (simp add: DT_def days_before_year_def)
  have from_clock: "search_from (DT 2024 3 10 0 0 0) None
      \<lparr>earliest = None, latest = None, catchup = True\<rparr> = DT 2024 3 10 0 0 0"
    by (simp add: search_from_def baseline_of_def)
  have next_budget: "days_before_year (year (search_from (DT 2024 3 10 0 0 0) None
         \<lparr>earliest = None, latest = None, catchup = True\<rparr>) + 1) \<le> int 800000"
    unfolding from_clock by (rule manual_budget)
  note yearly = C5_configuration_errors_raise [OF cfg pf manual_budget next_budget, of no_cron]
  have cfg0: "configuration_error (EveryNInterval 0 0 ''UTC'')" by simp
  have zero_manual: "infer_manual_data_interval no_cron 2 800000 (EveryNInterval 0 0 ''UTC'')
       (DT 2024 3 10 0 0 0) = Raise ValueError"
    by (simp add: EveryNInterval_infer_manual_data_interval_def)
  have zero_next: "next_dagrun_info no_cron 2 800000 (EveryNInterval 0 0 ''UTC'')
       (DT 2024 3 10 0 0 0) None \<lparr>earliest = None, latest = None, catchup = True\<rparr>
       = Raise ValueError"
    by (simp add: EveryNInterval_next_dagrun_info_def)
  have first_day: "infer_manual_data_interval no_cron 2 400
       (MonthlyWeekdayOccurrence 0 0 9 0 ''UTC'' 0) (DT 1 2 10 0 0 0) = Raise OverflowError"
    by code_simp
  from cfg pf manual_budget next_budget yearly cfg0 zero_manual zero_next first_day
  show ?thesis by (intro conjI) simp_all
qed

subsection \<open>Weekend avoidance (C8)\<close>

text \<open>
  Claim C8: every occurrence instant that \<^verbatim>\<open>BusinessDayOfMonth\<close> (for positive and for
  negative \<^verbatim>\<open>n\<close>) and \<^verbatim>\<open>MonthlyLastDayExceptWeekend\<close> produce falls on a day from Monday (0)
  to Friday (4). The occurrences are what \<^verbatim>\<open>_get_nth_business_day\<close> and \<^verbatim>\<open>_get_last_day\<close>
  return, and the starts of the intervals that the manual-interval operation returns.
  The next-run operation of the two classes produces no occurrence: it raises when it
  reads the clock (lines 1341, 1438).
\<close>

theorem C8_weekend_avoidance:
  "(BusinessDayOfMonth_get_nth_business_day df n h mi s p = Return d
      \<longrightarrow> 0 \<le> day_of_week d \<and> day_of_week d \<le> 4)
   \<and> (MonthlyLastDayExceptWeekend_get_last_day df' h' mi' s' p' = Return d'
      \<longrightarrow> 0 \<le> day_of_week d' \<and> day_of_week d' \<le> 4)
   \<and> (infer_manual_data_interval ce pf df (BusinessDayOfMonth n h mi tz s) t = Return iv
      \<longrightarrow> 0 \<le> day_of_week (start iv) \<and> day_of_week (start iv) \<le> 4)
   \<and> (infer_manual_data_interval ce pf df' (MonthlyLastDayExceptWeekend h' mi' tz s') t'
        = Return iv'
      \<longrightarrow> 0 \<le> day_of_week (start iv') \<and> day_of_week (start iv') \<le> 4)
   \<and> next_dagrun_info ce pf df (BusinessDayOfMonth n h mi tz s) now prev restriction
        = Raise AttributeError
   \<and> next_dagrun_info ce pf df' (MonthlyLastDayExceptWeekend h' mi' tz s') now prev restriction
        = Raise AttributeError"
proof -
  have business: "day_of_week x \<le> 4"
    if "BusinessDayOfMonth_get_nth_business_day df n h mi s q = Return x" for q x
    using business_day_weekday [OF that] by simp
  have last_day: "day_of_week x \<le> 4"
    if "MonthlyLastDayExceptWeekend_get_last_day df' h' mi' s' q = Return x" for q x
    using that by (rule except_weekend_weekday)
  have manual_business: "day_of_week (start iv) \<le> 4"
    if "infer_manual_data_interval ce pf df (BusinessDayOfMonth n h mi tz s) t = Return iv"
    using that business
    by (auto simp: BusinessDayOfMonth_infer_manual_data_interval_def dest!: covering_range)
  have manual_last_day: "day_of_week (start iv') \<le> 4"
    if "infer_manual_data_interval ce pf df' (MonthlyLastDayExceptWeekend h' mi' tz s') t'
          = Return iv'"
    using that last_day
    by (auto simp: MonthlyLastDayExceptWeekend_infer_manual_data_interval_def
        dest!: covering_range)
  from business [of p d] last_day [of p' d'] manual_business manual_last_day
    day_of_week_range [of d] day_of_week_range [of d'] day_of_week_range [of "start iv"]
    day_of_week_range [of "start iv'"]
  show ?thesis by (simp add: clock_read_raises)
qed

text \<open>
  June 2024 begins on a Saturday: its first business day is Monday the 3rd. March 2024
  ends on a Sunday: its last business day, and its last day that is no weekend day, is
  Friday the 29th.
\<close>

theorem C8_weekend_avoidance_witness:
  "BusinessDayOfMonth_get_nth_business_day 31 1 17 0 0 (2024, 6) = Return (DT 2024 6 3 17 0 0)
   \<and> BusinessDayOfMonth_get_nth_business_day 31 (- 1) 17 0 0 (2024, 3)
       = Return (DT 2024 3 29 17 0 0)
   \<and> MonthlyLastDayExceptWeekend_get_last_day 31 17 0 0 (2024, 3) = Return (DT 2024 3 29 17 0 0)
   \<and> infer_manual_data_interval no_cron 2 31 (BusinessDayOfMonth 1 17 0 ''UTC'' 0)
       (DT 2024 6 30 0 0 0) = Return (hour_interval (DT 2024 6 3 17 0 0))
   \<and> infer_manual_data_interval no_cron 2 31 (BusinessDayOfMonth (- 1) 17 0 ''UTC'' 0)
       (DT 2024 3 31 0 0 0) = Return (hour_interval (DT 2024 3 29 17 0 0))
   \<and> infer_manual_data_interval no_cron 2 31 (MonthlyLastDayExceptWeekend 17 0 ''UTC'' 0)
       (DT 2024 3 31 0 0 0) = Return (hour_interval (DT 2024 3 29 17 0 0))
   \<and> 0 \<le> day_of_week (DT 2024 6 3 17 0 0) \<and> day_of_week (DT 2024 6 3 17 0 0) \<le> 4
   \<and> 0 \<le> day_of_week (DT 2024 3 29 17 0 0) \<and> day_of_week (DT 2024 3 29 17 0 0) \<le> 4
   \<and> day_of_week (start (hour_interval (DT 2024 6 3 17 0 0))) \<le> 4
   \<and> day_of_week (start (hour_interval (DT 2024 3 29 17 0 0))) \<le> 4"
proof -
  have first: "BusinessDayOfMonth_get_nth_business_day 31 1 17 0 0 (2024, 6)
      = Return (DT 2024 6 3 17 0 0)"
    by code_simp
  have last: "BusinessDayOfMonth_get_nth_business_day 31 (- 1) 17 0 0 (2024, 3)
      = Return (DT 2024 3 29 17 0 0)"
    by code_simp
  have no_weekend: "MonthlyLastDayExceptWeekend_get_last_day 31 17 0 0 (2024, 3)
      = Return (DT 2024 3 29 17 0 0)"
    by code_simp
  have manual_first: "infer_manual_data_interval no_cron 2 31
      (BusinessDayOfMonth 1 17 0 ''UTC'' 0) (DT 2024 6 30 0 0 0)
      = Return (hour_interval (DT 2024 6 3 17 0 0))"
    by code_simp
  have manual_last: "infer_manual_data_interval no_cron 2 31
      (BusinessDayOfMonth (- 1) 17 0 ''UTC'' 0) (DT 2024 3 31 0 0 0)
      = Return (hour_interval (DT 2024 3 29 17 0 0))"
    by code_simp
  have manual_no_weekend: "infer_manual_data_interval no_cron 2 31
      (MonthlyLastDayExceptWeekend 17 0 ''UTC'' 0) (DT 2024 3 31 0 0 0)
      = Return (hour_interval (DT 2024 3 29 17 0 0))"
    by code_simp
  note positive = C8_weekend_avoidance [where df = 31 and n = 1 and h = 17 and mi = 0 and s = 0
      and p = "(2024, 6)" and d = "DT 2024 6 3 17 0 0" and ce = no_cron and pf = 2
      and tz = "''UTC''" and t = "DT 2024 6 30 0 0 0"
      and iv = "hour_interval (DT 2024 6 3 17 0 0)"
      and df' = 31 and h' = 17 and mi' = 0 and s' = 0 and p' = "(2024, 3)"
      and d' = "DT 2024 3 29 17 0 0" and t' = "DT 2024 3 31 0 0 0"
      and iv' = "hour_interval (DT 2024 3 29 17 0 0)"]
  note negative = C8_weekend_avoidance [where df = 31 and n = "- 1" and h = 17 and mi = 0
      and s = 0 and p = "(2024, 3)" and d = "DT 2024 3 29 17 0 0" and ce = no_cron and pf = 2
      and tz = "''UTC''" and t = "DT 2024 3 31 0 0 0"
      and iv = "hour_interval (DT 2024 3 29 17 0 0)"]
  from first last no_weekend manual_first manual_last manual_no_weekend positive negative
  show ?thesis by (intro conjI) simp_all
qed

subsection \<open>The codec (C9)\<close>

text \<open>
  For every class that defines its codec, deserializing what a constructed instance
  serializes to gives the instance back, field for field.
\<close>

lemma codec_round_trip:
  "constructed r \<Longrightarrow> class_of r \<noteq> YearlyWeekdayOccurrence_class \<Longrightarrow>
   deserialize (class_of r) (serialize r) = Return r"
  by (cases r)
    (simp_all add: with_clock_def get_str_def get_int_def get_list_def get_required_str_def
      clock_entries_def MonthlyMultipleDays_init_def MonthlyMultipleDays_init_days_def
      BiweeklyOnDay_init_def MonthlyWeekdayOccurrence_init_def weekday_name_index_def)

text \<open>
  Claim C9 says that the round trip holds for every variant. \<^verbatim>\<open>YearlyWeekdayOccurrence\<close>
  is the one class of the sixteen without \<^verbatim>\<open>serialize\<close> and \<^verbatim>\<open>deserialize\<close>: what it
  inherits writes none of its fields, and no instance comes back.
\<close>

theorem C9_yearly_weekday_occurrence_not_restored:
  "serialize (YearlyWeekdayOccurrence 11 0 1 9 0 ''America/New_York'' 0) = Map.empty
   \<and> deserialize (class_of (YearlyWeekdayOccurrence 11 0 1 9 0 ''America/New_York'' 0))
       (serialize (YearlyWeekdayOccurrence 11 0 1 9 0 ''America/New_York'' 0)) = Raise TypeError"
  by simp

subsection \<open>EveryNInterval after a previous run (C10)\<close>

text \<open>
  Claim C10: for \<^verbatim>\<open>EveryNInterval\<close> with a positive total interval and a last automated
  interval, the start that \<^verbatim>\<open>next_dagrun_info\<close> returns is the maximum of the end of that
  interval and \<open>g\<close>, the point of the midnight-anchored grid at or after the baseline (on
  the grid, not before the baseline, less than one step after it); \<^verbatim>\<open>restriction.latest\<close>
  is applied to that start as in the other variants. When the end of the last interval is
  after \<open>g\<close>, the start is that end.
\<close>

theorem C10_next_start_is_max:
  assumes total: "0 < interval_hours * 60 + interval_minutes"
    and req: "valid_request now (Some prev) restriction"
  shows "\<exists>g k. 0 \<le> k
      \<and> instant g = instant (midnight (baseline_of now restriction))
                       + k * ((interval_hours * 60 + interval_minutes) * 60000000)
      \<and> dt_le (baseline_of now restriction) g
      \<and> instant g < instant (baseline_of now restriction)
                       + (interval_hours * 60 + interval_minutes) * 60000000
      \<and> EveryNInterval_next_dagrun_info interval_minutes interval_hours now (Some prev) restriction
          = Return (within_latest restriction
              \<lparr>start = dt_max (finish prev) g,
                 finish = add_minutes (dt_max (finish prev) g)
                            (interval_hours * 60 + interval_minutes)\<rparr>)
      \<and> (dt_lt g (finish prev) \<longrightarrow> dt_max (finish prev) g = finish prev)"
proof -
  define T where "T = interval_hours * 60 + interval_minutes"
  define b where "b = baseline_of now restriction"
  define f where "f = grid_floor T b"
  define g where "g = (if dt_lt f b then add_minutes f T else f)"
  have T: "0 < T" using total by (simp add: T_def)
  have vb: "valid_datetime b" using req by (simp add: b_def valid_baseline_of)
  have vf: "valid_date (year f) (month f) (day f)"
    using valid_grid_floor [OF vb, of T] by (simp add: f_def valid_datetime_def)
  obtain j where j0: "0 \<le> j"
    and fi: "instant f = instant (midnight b) + j * (T * 60000000)"
    and le: "instant f \<le> instant b"
    and gt: "instant b < instant f + T * 60000000"
    using grid_floor_facts [OF vb T] unfolding f_def by blast
  have nz: "interval_hours * 60 + interval_minutes \<noteq> 0" using total by simp
  have run: "EveryNInterval_next_dagrun_info interval_minutes interval_hours now (Some prev) restriction
      = Return (within_latest restriction
          \<lparr>start = dt_max (finish prev) g, finish = add_minutes (dt_max (finish prev) g) T\<rparr>)"
    unfolding EveryNInterval_next_dagrun_info_def Let_def dt_max_def g_def f_def b_def T_def
    using nz by simp
  have last_end: "dt_lt g (finish prev) \<longrightarrow> dt_max (finish prev) g = finish prev"
    by (simp add: dt_max_def dt_lt_def)
  have grid: "\<exists>k. 0 \<le> k \<and> instant g = instant (midnight b) + k * (T * 60000000)"
  proof (cases "dt_lt f b")
    case True
    then have "instant g = instant (midnight b) + (j + 1) * (T * 60000000)"
      using vf fi by (simp add: g_def instant_add_minutes algebra_simps)
    with j0 show ?thesis by (intro exI [of _ "j + 1"]) simp
  next
    case False
    with fi j0 show ?thesis by (intro exI [of _ j]) (simp add: g_def)
  qed
  have bounds: "dt_le b g \<and> instant g < instant b + T * 60000000"
    using le gt vf by (auto simp: g_def dt_le_def dt_lt_def instant_add_minutes)
  from grid bounds run last_end show ?thesis
    unfolding T_def b_def by blast
qed

text \<open>
  With a step of 90 minutes, the clock at 01:00 and a last interval that ended at 01:45,
  the grid point is 01:30 and the start is 01:45, which is no point of the grid.
\<close>

theorem C10_next_start_is_max_witness:
  "(0::int) < 1 * 60 + 30
   \<and> valid_request (DT 2024 1 1 1 0 0)
       (Some \<lparr>start = DT 2024 1 1 0 15 0, finish = DT 2024 1 1 1 45 0\<rparr>)
       \<lparr>earliest = None, latest = None, catchup = False\<rparr>
   \<and> EveryNInterval_next_dagrun_info 30 1 (DT 2024 1 1 1 0 0)
       (Some \<lparr>start = DT 2024 1 1 0 15 0, finish = DT 2024 1 1 1 45 0\<rparr>)
       \<lparr>earliest = None, latest = None, catchup = False\<rparr>
     = Return (Some \<lparr>start = DT 2024 1 1 1 45 0, finish = DT 2024 1 1 3 15 0\<rparr>)
   \<and> (instant (DT 2024 1 1 1 45 0) - instant (midnight (DT 2024 1 1 1 0 0)))
        mod (90 * 60000000) = 15 * 60000000
   \<and> (\<exists>g k. 0 \<le> k
      \<and> instant g = instant (midnight (DT 2024 1 1 1 0 0)) + k * (90 * 60000000)
      \<and> dt_le (DT 2024 1 1 1 0 0) g
      \<and> instant g < instant (DT 2024 1 1 1 0 0) + 90 * 60000000
      \<and> EveryNInterval_next_dagrun_info 30 1 (DT 2024 1 1 1 0 0)
          (Some \<lparr>start = DT 2024 1 1 0 15 0, finish = DT 2024 1 1 1 45 0\<rparr>)
          \<lparr>earliest = None, latest = None, catchup = False\<rparr>
          = Return (Some \<lparr>start = dt_max (DT 2024 1 1 1 45 0) g,
                            finish = add_minutes (dt_max (DT 2024 1 1 1 45 0) g) 90\<rparr>))"
proof -
  have pos: "(0::int) < 1 * 60 + 30" by simp
  have req: "valid_request (DT 2024 1 1 1 0 0)
       (Some \<lparr>start = DT 2024 1 1 0 15 0, finish = DT 2024 1 1 1 45 0\<rparr>)
       \<lparr>earliest = None, latest = None, catchup = False\<rparr>"
    by code_simp
  have run: "EveryNInterval_next_dagrun_info 30 1 (DT 2024 1 1 1 0 0)
       (Some \<lparr>start = DT 2024 1 1 0 15 0, finish = DT 2024 1 1 1 45 0\<rparr>)
       \<lparr>earliest = None, latest = None, catchup = False\<rparr>
     = Return (Some \<lparr>start = DT 2024 1 1 1 45 0, finish = DT 2024 1 1 3 15 0\<rparr>)"
    by code_simp
  have off: "(instant (DT 2024 1 1 1 45 0) - instant (midnight (DT 2024 1 1 1 0 0)))
        mod (90 * 60000000) = 15 * 60000000"
    by code_simp
  have base: "baseline_of (DT 2024 1 1 1 0 0) \<lparr>earliest = None, latest = None, catchup = False\<rparr>
      = DT 2024 1 1 1 0 0"
    by (simp add: baseline_of_def dt_max_def dt_lt_def)
  have general: "\<exists>g k. 0 \<le> k
      \<and> instant g = instant (midnight (DT 2024 1 1 1 0 0)) + k * (90 * 60000000)
      \<and> dt_le (DT 2024 1 1 1 0 0) g
      \<and> instant g < instant (DT 2024 1 1 1 0 0) + 90 * 60000000
      \<and> EveryNInterval_next_dagrun_info 30 1 (DT 2024 1 1 1 0 0)
          (Some \<lparr>start = DT 2024 1 1 0 15 0, finish = DT 2024 1 1 1 45 0\<rparr>)
          \<lparr>earliest = None, latest = None, catchup = False\<rparr>
          = Return (Some \<lparr>start = dt_max (DT 2024 1 1 1 45 0) g,
                            finish = add_minutes (dt_max (DT 2024 1 1 1 45 0) g) 90\<rparr>)"
    using C10_next_start_is_max [OF pos req]
    by (simp add: base within_latest_def) blast
  from pos req run off general show ?thesis by (intro conjI)
qed

end
